theory Spec2Isabelle
  imports Main
begin

section \<open>Minion effects of hearthbreaker (effects/minion.py)\<close>

text \<open>
  A shallow embedding of \<^verbatim>\<open>hearthbreaker/effects/minion.py\<close>. Python objects are
  referred to by identity: minions and effect instances carry a number, the game holds
  the minions in a store, and the fields an effect mutates after its construction
  (\<^verbatim>\<open>affected_minions\<close>, \<^verbatim>\<open>charged_minions\<close>, \<^verbatim>\<open>filter_object\<close>, \<^verbatim>\<open>mana_filter\<close>,
  \<^verbatim>\<open>dead_minions\<close>) live in the game state under the effect's number. Every
  \<^verbatim>\<open>raise\<close> of the source is a value of type \<open>error\<close>.
\<close>

subsection \<open>Errors, identities, cards\<close>

datatype error = RuntimeError | KeyError | ValueError | IndexError | TypeError

type_synonym minion_id = nat
type_synonym effect_id = nat

text \<open>\<^verbatim>\<open>game.players[0]\<close> and \<^verbatim>\<open>game.players[1]\<close>.\<close>

datatype player_id = First | Second

fun opponent :: "player_id \<Rightarrow> player_id" where
  "opponent First = Second"
| "opponent Second = First"

text \<open>
  A card, as far as the effects look at it: its name, its base cost, what
  \<^verbatim>\<open>isinstance(c, MinionCard)\<close>, \<^verbatim>\<open>c.is_spell()\<close> and \<^verbatim>\<open>isinstance(c, SecretCard)\<close>
  answer, its \<^verbatim>\<open>minion_type\<close>, and whether the minion it creates has a battlecry.
  A card class and the card object it constructs carry the same data.
\<close>

record card =
  name :: string
  mana :: int
  is_minion_card :: bool
  is_spell :: bool
  is_secret_card :: bool
  card_minion_type :: int
  has_battlecry :: bool

subsection \<open>Effect instances\<close>

text \<open>
  One constructor per class, holding the instance's identity, its \<^verbatim>\<open>target\<close> (set by
  \<^verbatim>\<open>set_target\<close> before \<^verbatim>\<open>apply\<close>) and the arguments of \<^verbatim>\<open>__init__\<close>. The field
  \<^verbatim>\<open>self.player\<close> of \<^verbatim>\<open>ManaFilter\<close> is \<open>filter_player\<close>, \<^verbatim>\<open>self.card\<close> of
  \<^verbatim>\<open>AddCardOnSpell\<close> is \<open>card_class\<close>.
\<close>

datatype effect =
    KillMinion (ident: effect_id) (target: minion_id) (when': string)
  | SummonOnDeath (ident: effect_id) (target: minion_id) (replacement: card) (count: int)
  | Immune (ident: effect_id) (target: minion_id)
  | DrawOnMinion (ident: effect_id) (target: minion_id) (minion_type: int)
  | ChargeAura (ident: effect_id) (target: minion_id) (players: string) (minion_type: int)
  | StatsAura (ident: effect_id) (target: minion_id) (attack: int) (health: int)
      (players: string) (minion_type: int)
  | IncreaseBattlecryMinionCost (ident: effect_id) (target: minion_id) (amount: int)
  | DoubleDeathrattle (ident: effect_id) (target: minion_id)
  | HealAsDamage (ident: effect_id) (target: minion_id)
  | ManaFilter (ident: effect_id) (target: minion_id) (amount: int) (filter_type: string)
      (minimum: int) (filter_player: string)
  | GrowIfSecret (ident: effect_id) (target: minion_id) (attack: int) (health: int)
  | AddCardOnSpell (ident: effect_id) (target: minion_id) (card_class: card)
  | FreezeOnDamage (ident: effect_id) (target: minion_id)
  | KillOnDamage (ident: effect_id) (target: minion_id)
  | DrawOnAttack (ident: effect_id) (target: minion_id) (amount: int) (first_player: bool)
  | Buff (ident: effect_id) (target: minion_id) (when': string) (minion_filter: string)
      (buff_target: string) (attack: int) (health: int) (players: string)
  | ResurrectFriendlyMinionsAtEndOfTurn (ident: effect_id) (target: minion_id)

text \<open>The class of an instance, the key of \<^verbatim>\<open>effect_count\<close>.\<close>

fun effect_class :: "effect \<Rightarrow> string" where
  "effect_class (KillMinion _ _ _) = ''KillMinion''"
| "effect_class (SummonOnDeath _ _ _ _) = ''SummonOnDeath''"
| "effect_class (Immune _ _) = ''Immune''"
| "effect_class (DrawOnMinion _ _ _) = ''DrawOnMinion''"
| "effect_class (ChargeAura _ _ _ _) = ''ChargeAura''"
| "effect_class (StatsAura _ _ _ _ _ _) = ''StatsAura''"
| "effect_class (IncreaseBattlecryMinionCost _ _ _) = ''IncreaseBattlecryMinionCost''"
| "effect_class (DoubleDeathrattle _ _) = ''DoubleDeathrattle''"
| "effect_class (HealAsDamage _ _) = ''HealAsDamage''"
| "effect_class (ManaFilter _ _ _ _ _ _) = ''ManaFilter''"
| "effect_class (GrowIfSecret _ _ _ _) = ''GrowIfSecret''"
| "effect_class (AddCardOnSpell _ _ _) = ''AddCardOnSpell''"
| "effect_class (FreezeOnDamage _ _) = ''FreezeOnDamage''"
| "effect_class (KillOnDamage _ _) = ''KillOnDamage''"
| "effect_class (DrawOnAttack _ _ _ _) = ''DrawOnAttack''"
| "effect_class (Buff _ _ _ _ _ _ _ _) = ''Buff''"
| "effect_class (ResurrectFriendlyMinionsAtEndOfTurn _ _) = ''ResurrectFriendlyMinionsAtEndOfTurn''"

subsection \<open>Callbacks\<close>

text \<open>
  What the effects hand to \<^verbatim>\<open>bind\<close>: a bound method \<^verbatim>\<open>self.name\<close> (equal to another
  bound method exactly when the instance and the name are the same), or one of the
  closures that \<^verbatim>\<open>ChargeAura.give_charge_if_beast\<close> creates for a minion:
  \<^verbatim>\<open>silenced\<close>, \<^verbatim>\<open>target_silenced\<close> and \<^verbatim>\<open>copied\<close> of \<^verbatim>\<open>give_permacharge_effect\<close>,
  \<^verbatim>\<open>silenced\<close> of \<^verbatim>\<open>watch_for_silence\<close> and the \<^verbatim>\<open>lambda\<close> next to it. A closure is
  identified by the aura and the minion it was created for.
\<close>

datatype callback =
    Bound effect string
  | Permacharge_silenced effect minion_id
  | Permacharge_target_silenced effect minion_id
  | Permacharge_copied effect minion_id
  | Watch_silenced effect minion_id
  | Watch_unbind effect minion_id

subsection \<open>The event bus\<close>

text \<open>
  Modelled from the spec: the class that gives minions and players \<^verbatim>\<open>bind\<close>,
  \<^verbatim>\<open>bind_once\<close>, \<^verbatim>\<open>unbind\<close> and \<^verbatim>\<open>trigger\<close> is not in \<^verbatim>\<open>effects/minion.py\<close>. An
  entity's listeners map an event name to the ordered sequence of (callback, one-shot
  flag); an event nobody listens to has the empty sequence. \<^verbatim>\<open>bind\<close> appends
  \<open>(callback, False)\<close>, \<^verbatim>\<open>bind_once\<close> appends \<open>(callback, True)\<close>, \<^verbatim>\<open>unbind\<close> removes the
  first entry with an equal callback and does nothing when there is none.
\<close>

type_synonym handler = "callback \<times> bool"
type_synonym listeners = "string \<Rightarrow> handler list"

definition bind :: "string \<Rightarrow> callback \<Rightarrow> listeners \<Rightarrow> listeners" where
  "bind event f ls = ls(event := ls event @ [(f, False)])"

definition bind_once :: "string \<Rightarrow> callback \<Rightarrow> listeners \<Rightarrow> listeners" where
  "bind_once event f ls = ls(event := ls event @ [(f, True)])"

fun remove_first :: "callback \<Rightarrow> handler list \<Rightarrow> handler list" where
  "remove_first f [] = []"
| "remove_first f (h # hs) = (if fst h = f then hs else h # remove_first f hs)"

definition unbind :: "string \<Rightarrow> callback \<Rightarrow> listeners \<Rightarrow> listeners" where
  "unbind event f ls = ls(event := remove_first f (ls event))"

subsection \<open>Game state\<close>

text \<open>
  A deathrattle slot holds \<^verbatim>\<open>None\<close> or a callable: one that the minion's card brought
  (named, run by a collaborator), or the bound method \<^verbatim>\<open>summon_replacement\<close> of a
  \<^verbatim>\<open>SummonOnDeath\<close> instance. \<^verbatim>\<open>old_death_rattle\<close> is assigned in \<^verbatim>\<open>apply\<close> only, so the
  callable carries the instance together with the value \<^verbatim>\<open>apply\<close> stored there.
\<close>

datatype deathrattle =
    Card_deathrattle string
  | Summon_replacement effect (old_death_rattle: "deathrattle option")

text \<open>
  The entry class \<^verbatim>\<open>Filter\<close> of a player's \<^verbatim>\<open>mana_filters\<close>. The predicate
  \<^verbatim>\<open>filter\<close> is one of the five lambdas of the source; \<open>created_by\<close> stands for the
  identity of the object (\<^verbatim>\<open>list.remove\<close> compares \<^verbatim>\<open>Filter\<close> objects by identity).
\<close>

datatype card_filter =
    Minion_filter
  | Spell_filter
  | Secret_filter
  | Any_filter
  | Battlecry_minion_filter

record Filter =
  created_by :: effect_id
  amount' :: int
  min' :: int
  filter' :: card_filter

text \<open>
  Modelled from the spec: \<^verbatim>\<open>add_aura\<close> belongs to the minion class, which is not in
  \<^verbatim>\<open>effects/minion.py\<close>. An aura is the tuple (attack delta, health delta, population,
  optional predicate); here the predicate is the minion type it asks for.
\<close>

record aura =
  aura_source :: minion_id
  aura_attack :: int
  aura_health :: int
  aura_players :: "player_id list"
  aura_minion_type :: "int option"

record minion =
  player :: player_id
  minion_card :: card
  charge :: bool
  immune :: bool
  deathrattle :: "deathrattle option"
  minion_events :: listeners

record player_state =
  minions :: "minion_id list"
  hand :: "card list"
  secrets :: "card list"
  mana_filters :: "Filter list"
  heal_does_damage :: bool
  effect_count :: "string \<Rightarrow> int"
  player_events :: listeners

record game =
  game_players :: "player_id \<Rightarrow> player_state"
  current_player :: player_id
  minion :: "minion_id \<Rightarrow> minion"
  next_minion :: minion_id
  auras :: "aura list"
  affected_minions :: "effect_id \<Rightarrow> minion_id list"
  charged_minions :: "effect_id \<Rightarrow> minion_id list"
  filter_object :: "effect_id \<Rightarrow> Filter option"
  dead_minions :: "effect_id \<Rightarrow> card list"

definition other_player :: "game \<Rightarrow> player_id" where
  "other_player g = opponent (current_player g)"

text \<open>\<^verbatim>\<open>self.target.player\<close>.\<close>

definition target_player :: "effect \<Rightarrow> game \<Rightarrow> player_id" where
  "target_player self g = player (minion g (target self))"

definition update_player :: "player_id \<Rightarrow> (player_state \<Rightarrow> player_state) \<Rightarrow> game \<Rightarrow> game" where
  "update_player p f g = g\<lparr>game_players := (game_players g)(p := f (game_players g p))\<rparr>"

definition update_minion :: "minion_id \<Rightarrow> (minion \<Rightarrow> minion) \<Rightarrow> game \<Rightarrow> game" where
  "update_minion m f g = g\<lparr>minion := (minion g)(m := f (minion g m))\<rparr>"

definition player_bind :: "player_id \<Rightarrow> string \<Rightarrow> callback \<Rightarrow> game \<Rightarrow> game" where
  "player_bind p event f = update_player p (\<lambda>s. s\<lparr>player_events := bind event f (player_events s)\<rparr>)"

definition player_unbind :: "player_id \<Rightarrow> string \<Rightarrow> callback \<Rightarrow> game \<Rightarrow> game" where
  "player_unbind p event f = update_player p (\<lambda>s. s\<lparr>player_events := unbind event f (player_events s)\<rparr>)"

definition minion_bind :: "minion_id \<Rightarrow> string \<Rightarrow> callback \<Rightarrow> game \<Rightarrow> game" where
  "minion_bind m event f = update_minion m (\<lambda>s. s\<lparr>minion_events := bind event f (minion_events s)\<rparr>)"

definition minion_bind_once :: "minion_id \<Rightarrow> string \<Rightarrow> callback \<Rightarrow> game \<Rightarrow> game" where
  "minion_bind_once m event f =
     update_minion m (\<lambda>s. s\<lparr>minion_events := bind_once event f (minion_events s)\<rparr>)"

definition minion_unbind :: "minion_id \<Rightarrow> string \<Rightarrow> callback \<Rightarrow> game \<Rightarrow> game" where
  "minion_unbind m event f = update_minion m (\<lambda>s. s\<lparr>minion_events := unbind event f (minion_events s)\<rparr>)"

definition set_charge :: "minion_id \<Rightarrow> bool \<Rightarrow> game \<Rightarrow> game" where
  "set_charge m b = update_minion m (\<lambda>s. s\<lparr>charge := b\<rparr>)"

definition set_immune :: "minion_id \<Rightarrow> bool \<Rightarrow> game \<Rightarrow> game" where
  "set_immune m b = update_minion m (\<lambda>s. s\<lparr>immune := b\<rparr>)"

text \<open>\<^verbatim>\<open>list.remove(x)\<close>: the first equal element goes, \<^verbatim>\<open>ValueError\<close> when there is none.\<close>

definition list_remove :: "'a \<Rightarrow> 'a list \<Rightarrow> error + 'a list" where
  "list_remove x xs = (if x \<in> set xs then Inr (remove1 x xs) else Inl ValueError)"

text \<open>
  \<^verbatim>\<open>player.mana_filters.append(f)\<close> and \<^verbatim>\<open>player.mana_filters.remove(f)\<close>; the
  argument of \<^verbatim>\<open>remove\<close> is the effect's \<^verbatim>\<open>filter_object\<close>, \<^verbatim>\<open>None\<close> before \<^verbatim>\<open>apply\<close> ran
  (and \<^verbatim>\<open>None\<close> is in no list of filters).
\<close>

definition append_filter :: "player_id \<Rightarrow> Filter \<Rightarrow> game \<Rightarrow> game" where
  "append_filter p f = update_player p (\<lambda>s. s\<lparr>mana_filters := mana_filters s @ [f]\<rparr>)"

definition remove_filter :: "player_id \<Rightarrow> Filter option \<Rightarrow> game \<Rightarrow> error + game" where
  "remove_filter p fo g =
     (case fo of
        None \<Rightarrow> Inl ValueError
      | Some f \<Rightarrow>
          (case list_remove f (mana_filters (game_players g p)) of
             Inl e \<Rightarrow> Inl e
           | Inr fs \<Rightarrow> Inr (update_player p (\<lambda>s. s\<lparr>mana_filters := fs\<rparr>) g)))"

text \<open>Sequencing of steps that may raise: the first error ends the run.\<close>

definition and_then :: "error + 'a \<Rightarrow> ('a \<Rightarrow> error + 'b) \<Rightarrow> error + 'b" where
  "and_then r f = (case r of Inl e \<Rightarrow> Inl e | Inr x \<Rightarrow> f x)"

subsection \<open>KillMinion\<close>

definition KillMinion_apply :: "effect \<Rightarrow> game \<Rightarrow> game" where
  "KillMinion_apply self g = player_bind (current_player g) (when' self) (Bound self ''die'') g"

definition KillMinion_unapply :: "effect \<Rightarrow> game \<Rightarrow> game" where
  "KillMinion_unapply self g = player_unbind (current_player g) (when' self) (Bound self ''die'') g"

subsection \<open>SummonOnDeath\<close>

definition SummonOnDeath_apply :: "effect \<Rightarrow> game \<Rightarrow> game" where
  "SummonOnDeath_apply self g =
     update_minion (target self)
       (\<lambda>s. s\<lparr>deathrattle := Some (Summon_replacement self (deathrattle s))\<rparr>) g"

definition SummonOnDeath_unapply :: "effect \<Rightarrow> game \<Rightarrow> game" where
  "SummonOnDeath_unapply self g = g"

subsection \<open>Immune\<close>

definition remove_immunity :: "effect \<Rightarrow> game \<Rightarrow> game" where
  "remove_immunity self g = set_immune (target self) False g"

definition Immune_apply :: "effect \<Rightarrow> game \<Rightarrow> game" where
  "Immune_apply self g =
     (let g1 = set_immune (target self) True g
      in player_bind (current_player g1) ''turn_ended'' (Bound self ''remove_immunity'') g1)"

definition Immune_unapply :: "effect \<Rightarrow> game \<Rightarrow> game" where
  "Immune_unapply self g =
     (let g1 = remove_immunity self g
      in player_unbind (current_player g1) ''turn_ended'' (Bound self ''remove_immunity'') g1)"

subsection \<open>DrawOnMinion\<close>

definition DrawOnMinion_apply :: "effect \<Rightarrow> game \<Rightarrow> game" where
  "DrawOnMinion_apply self g =
     player_bind (target_player self g) ''minion_placed'' (Bound self ''check_minion_draw'') g"

definition DrawOnMinion_unapply :: "effect \<Rightarrow> game \<Rightarrow> game" where
  "DrawOnMinion_unapply self g =
     player_unbind (target_player self g) ''minion_placed'' (Bound self ''check_minion_draw'') g"

subsection \<open>ChargeAura\<close>

text \<open>
  \<^verbatim>\<open>MINION_TYPE.ALL\<close> is a constant of \<^verbatim>\<open>hearthbreaker.constants\<close>, which is not among
  the sources: the functions that compare with it take it as the parameter
  \<open>MINION_TYPE_ALL\<close>. Minion types are small integers, on which \<^verbatim>\<open>is\<close> and \<^verbatim>\<open>==\<close> agree.
\<close>

definition give_permacharge_effect :: "effect \<Rightarrow> minion_id \<Rightarrow> game \<Rightarrow> game" where
  "give_permacharge_effect self m g =
     (let g1 = set_charge m True g;
          g2 = g1\<lparr>affected_minions :=
                 (affected_minions g1)(ident self := affected_minions g1 (ident self) @ [m])\<rparr>;
          g3 = minion_bind m ''silenced'' (Permacharge_silenced self m) g2;
          g4 = minion_bind m ''copied'' (Permacharge_copied self m) g3
      in minion_bind_once (target self) ''silenced'' (Permacharge_target_silenced self m) g4)"

definition watch_for_silence :: "effect \<Rightarrow> minion_id \<Rightarrow> game \<Rightarrow> game" where
  "watch_for_silence self m g =
     (let g1 = minion_bind_once m ''silenced'' (Watch_silenced self m) g;
          g2 = minion_bind_once (target self) ''silenced'' (Watch_unbind self m) g1
      in g2\<lparr>charged_minions :=
              (charged_minions g2)(ident self := charged_minions g2 (ident self) @ [m])\<rparr>)"

definition give_charge_if_beast :: "int \<Rightarrow> effect \<Rightarrow> minion_id \<Rightarrow> game \<Rightarrow> game" where
  "give_charge_if_beast MINION_TYPE_ALL self played_minion g =
     (if played_minion = target self \<and>
         (minion_type self = MINION_TYPE_ALL \<or>
          card_minion_type (minion_card (minion g played_minion)) = minion_type self)
      then set_charge (target self) True g
      else if minion_type self = MINION_TYPE_ALL \<or>
              card_minion_type (minion_card (minion g played_minion)) = minion_type self
      then (if \<not> charge (minion g played_minion)
            then give_permacharge_effect self played_minion g
            else watch_for_silence self played_minion g)
      else g)"

definition ChargeAura_apply :: "int \<Rightarrow> effect \<Rightarrow> game \<Rightarrow> game" where
  "ChargeAura_apply MINION_TYPE_ALL self g =
     (let g1 =
        (if players self = ''friendly'' \<or> players self = ''both''
         then player_bind (target_player self g) ''minion_played''
                (Bound self ''give_charge_if_beast'')
                (foldl (\<lambda>s charge_minion. give_charge_if_beast MINION_TYPE_ALL self charge_minion s)
                   g (minions (game_players g (target_player self g))))
         else g)
      in if players self = ''enemy'' \<or> players self = ''both''
         then player_bind (opponent (target_player self g1)) ''minion_played''
                (Bound self ''give_charge_if_beast'')
                (foldl (\<lambda>s charge_minion. give_charge_if_beast MINION_TYPE_ALL self charge_minion s)
                   g1 (minions (game_players g1 (opponent (target_player self g1)))))
         else g1)"

definition ChargeAura_unapply :: "effect \<Rightarrow> game \<Rightarrow> game" where
  "ChargeAura_unapply self g =
     (let g1 =
        (if players self = ''friendly'' \<or> players self = ''both''
         then player_unbind (target_player self g) ''minion_played''
                (Bound self ''give_charge_if_beast'') g
         else g)
      in if players self = ''enemy'' \<or> players self = ''both''
         then player_unbind (opponent (target_player self g1)) ''minion_played''
                (Bound self ''give_charge_if_beast'') g1
         else g1)"

subsection \<open>StatsAura\<close>

definition add_aura :: "minion_id \<Rightarrow> int \<Rightarrow> int \<Rightarrow> player_id list \<Rightarrow> int option \<Rightarrow> game \<Rightarrow> game" where
  "add_aura m a h ps ty g =
     g\<lparr>auras := auras g @
          [\<lparr>aura_source = m, aura_attack = a, aura_health = h, aura_players = ps,
            aura_minion_type = ty\<rparr>]\<rparr>"

definition StatsAura_apply :: "int \<Rightarrow> effect \<Rightarrow> game \<Rightarrow> game" where
  "StatsAura_apply MINION_TYPE_ALL self g =
     (let ps = (if players self = ''friendly'' then [target_player self g]
                else if players self = ''enemy'' then [opponent (target_player self g)]
                else [target_player self g, opponent (target_player self g)])
      in if minion_type self = MINION_TYPE_ALL
         then add_aura (target self) (attack self) (health self) ps None g
         else add_aura (target self) (attack self) (health self) ps (Some (minion_type self)) g)"

definition StatsAura_unapply :: "effect \<Rightarrow> game \<Rightarrow> game" where
  "StatsAura_unapply self g = g"

subsection \<open>IncreaseBattlecryMinionCost\<close>

definition IncreaseBattlecryMinionCost_apply :: "effect \<Rightarrow> game \<Rightarrow> game" where
  "IncreaseBattlecryMinionCost_apply self g =
     (let f = \<lparr>created_by = ident self, amount' = - amount self, min' = 0,
               filter' = Battlecry_minion_filter\<rparr>;
          g1 = g\<lparr>filter_object := (filter_object g)(ident self := Some f)\<rparr>;
          g2 = append_filter (current_player g1) f g1
      in append_filter (other_player g2) f g2)"

definition IncreaseBattlecryMinionCost_unapply :: "effect \<Rightarrow> game \<Rightarrow> error + game" where
  "IncreaseBattlecryMinionCost_unapply self g =
     and_then (remove_filter (current_player g) (filter_object g (ident self)) g)
       (\<lambda>g1. remove_filter (other_player g1) (filter_object g1 (ident self)) g1)"

subsection \<open>DoubleDeathrattle and HealAsDamage\<close>

definition DoubleDeathrattle_apply :: "effect \<Rightarrow> game \<Rightarrow> game" where
  "DoubleDeathrattle_apply self g =
     (if effect_count (game_players g (target_player self g)) ''DoubleDeathrattle'' = 1
      then player_bind (target_player self g) ''minion_died'' (Bound self ''trigger_deathrattle'') g
      else g)"

definition DoubleDeathrattle_unapply :: "effect \<Rightarrow> game \<Rightarrow> game" where
  "DoubleDeathrattle_unapply self g =
     (if effect_count (game_players g (target_player self g)) ''DoubleDeathrattle'' = 0
      then player_unbind (target_player self g) ''minion_died'' (Bound self ''trigger_deathrattle'') g
      else g)"

definition HealAsDamage_apply :: "effect \<Rightarrow> game \<Rightarrow> game" where
  "HealAsDamage_apply self g =
     (if effect_count (game_players g (target_player self g)) ''HealAsDamage'' = 1
      then update_player (target_player self g) (\<lambda>s. s\<lparr>heal_does_damage := True\<rparr>) g
      else g)"

definition HealAsDamage_unapply :: "effect \<Rightarrow> game \<Rightarrow> game" where
  "HealAsDamage_unapply self g =
     (if effect_count (game_players g (target_player self g)) ''HealAsDamage'' = 0
      then update_player (target_player self g) (\<lambda>s. s\<lparr>heal_does_damage := False\<rparr>) g
      else g)"

subsection \<open>ManaFilter\<close>

definition my_filter :: "string \<Rightarrow> card_filter" where
  "my_filter ft =
     (if ft = ''minion'' then Minion_filter
      else if ft = ''spell'' then Spell_filter
      else if ft = ''secret'' then Secret_filter
      else Any_filter)"

definition ManaFilter_apply :: "effect \<Rightarrow> game \<Rightarrow> game" where
  "ManaFilter_apply self g =
     (let f = \<lparr>created_by = ident self, amount' = amount self, min' = minimum self,
               filter' = my_filter (filter_type self)\<rparr>;
          g1 = g\<lparr>filter_object := (filter_object g)(ident self := Some f)\<rparr>;
          g2 = (if filter_player self = ''friendly'' \<or> filter_player self = ''both''
                then append_filter (target_player self g1) f g1 else g1)
      in if filter_player self = ''enemy'' \<or> filter_player self = ''both''
         then append_filter (opponent (target_player self g2)) f g2 else g2)"

definition ManaFilter_unapply :: "effect \<Rightarrow> game \<Rightarrow> error + game" where
  "ManaFilter_unapply self g =
     and_then
       (if filter_player self = ''friendly'' \<or> filter_player self = ''both''
        then remove_filter (target_player self g) (filter_object g (ident self)) g
        else Inr g)
       (\<lambda>g1. if filter_player self = ''enemy'' \<or> filter_player self = ''both''
             then remove_filter (opponent (target_player self g1)) (filter_object g1 (ident self)) g1
             else Inr g1)"

subsection \<open>Effects that only subscribe one bound method\<close>

definition GrowIfSecret_apply :: "effect \<Rightarrow> game \<Rightarrow> game" where
  "GrowIfSecret_apply self g =
     player_bind (target_player self g) ''turn_ended'' (Bound self ''increase_stats'') g"

definition GrowIfSecret_unapply :: "effect \<Rightarrow> game \<Rightarrow> game" where
  "GrowIfSecret_unapply self g =
     player_unbind (target_player self g) ''turn_ended'' (Bound self ''increase_stats'') g"

definition AddCardOnSpell_apply :: "effect \<Rightarrow> game \<Rightarrow> game" where
  "AddCardOnSpell_apply self g =
     player_bind (target_player self g) ''spell_cast'' (Bound self ''add_card'') g"

definition AddCardOnSpell_unapply :: "effect \<Rightarrow> game \<Rightarrow> game" where
  "AddCardOnSpell_unapply self g =
     player_unbind (target_player self g) ''spell_cast'' (Bound self ''add_card'') g"

definition FreezeOnDamage_apply :: "effect \<Rightarrow> game \<Rightarrow> game" where
  "FreezeOnDamage_apply self g = minion_bind (target self) ''did_damage'' (Bound self ''did_damage'') g"

definition FreezeOnDamage_unapply :: "effect \<Rightarrow> game \<Rightarrow> game" where
  "FreezeOnDamage_unapply self g = minion_unbind (target self) ''did_damage'' (Bound self ''did_damage'') g"

definition KillOnDamage_apply :: "effect \<Rightarrow> game \<Rightarrow> game" where
  "KillOnDamage_apply self g = minion_bind (target self) ''did_damage'' (Bound self ''did_damage'') g"

definition KillOnDamage_unapply :: "effect \<Rightarrow> game \<Rightarrow> game" where
  "KillOnDamage_unapply self g = minion_unbind (target self) ''did_damage'' (Bound self ''did_damage'') g"

definition DrawOnAttack_apply :: "effect \<Rightarrow> game \<Rightarrow> game" where
  "DrawOnAttack_apply self g = minion_bind (target self) ''attack'' (Bound self ''draw'') g"

definition DrawOnAttack_unapply :: "effect \<Rightarrow> game \<Rightarrow> game" where
  "DrawOnAttack_unapply self g = minion_unbind (target self) ''attack'' (Bound self ''draw'') g"

subsection \<open>Buff\<close>

text \<open>The first statement of \<^verbatim>\<open>Buff.apply\<close> and of \<^verbatim>\<open>Buff.unapply\<close>: the list \<^verbatim>\<open>players\<close>.\<close>

definition Buff_players :: "effect \<Rightarrow> game \<Rightarrow> error + player_id list" where
  "Buff_players self g =
     (if players self = ''friendly'' then Inr [target_player self g]
      else if players self = ''enemy'' then Inr [opponent (target_player self g)]
      else if players self = ''both''
      then Inr [target_player self g, opponent (target_player self g)]
      else Inl RuntimeError)"

text \<open>\<^verbatim>\<open>for player in players: player.bind(event, f)\<close>, and the same with \<^verbatim>\<open>unbind\<close>.\<close>

definition bind_all :: "player_id list \<Rightarrow> string \<Rightarrow> callback \<Rightarrow> game \<Rightarrow> game" where
  "bind_all ps event f g = foldl (\<lambda>s p. player_bind p event f s) g ps"

definition unbind_all :: "player_id list \<Rightarrow> string \<Rightarrow> callback \<Rightarrow> game \<Rightarrow> game" where
  "unbind_all ps event f g = foldl (\<lambda>s p. player_unbind p event f s) g ps"

definition Buff_apply :: "effect \<Rightarrow> game \<Rightarrow> error + game" where
  "Buff_apply self g =
     and_then (Buff_players self g) (\<lambda>ps. Inr
       (if when' self = ''death'' then bind_all ps ''minion_died'' (Bound self ''_check_minion_filter'') g
        else if when' self = ''damaged''
        then bind_all ps ''minion_damaged'' (Bound self ''_check_minion_filter'') g
        else if when' self = ''summoned''
        then bind_all ps ''minion_summoned'' (Bound self ''_check_minion_filter'') g
        else if when' self = ''played''
        then (if minion_filter self = ''spell'' \<or> minion_filter self = ''secret'' \<or>
                 minion_filter self = ''card''
              then bind_all ps ''card_played'' (Bound self ''_check_card_filter'') g
              else bind_all ps ''minion_played'' (Bound self ''_check_minion_filter'') g)
        else if when' self = ''turn_ended'' then bind_all ps ''turn_ended'' (Bound self ''_do_action'') g
        else if when' self = ''turn_started''
        then bind_all ps ''turn_started'' (Bound self ''_do_action'') g
        else g))"

definition Buff_unapply :: "effect \<Rightarrow> game \<Rightarrow> error + game" where
  "Buff_unapply self g =
     and_then (Buff_players self g) (\<lambda>ps. Inr
       (if when' self = ''death'' then unbind_all ps ''minion_died'' (Bound self ''_check_minion_filter'') g
        else if when' self = ''damaged''
        then unbind_all ps ''minion_damaged'' (Bound self ''_check_minion_filter'') g
        else if when' self = ''summoned''
        then unbind_all ps ''minion_summoned'' (Bound self ''_check_minion_filter'') g
        else if when' self = ''played''
        then (if minion_filter self = ''spell'' \<or> minion_filter self = ''secret'' \<or>
                 minion_filter self = ''card''
              then unbind_all ps ''card_played'' (Bound self ''_check_card_filter'') g
              else unbind_all ps ''minion_played'' (Bound self ''_check_minion_filter'') g)
        else if when' self = ''turn_ended''
        then unbind_all ps ''turn_ended'' (Bound self ''_do_action'') g
        else if when' self = ''turn_started''
        then unbind_all ps ''turn_started'' (Bound self ''_do_action'') g
        else g))"

subsection \<open>ResurrectFriendlyMinionsAtEndOfTurn\<close>

definition Resurrect_apply :: "effect \<Rightarrow> game \<Rightarrow> game" where
  "Resurrect_apply self g =
     (let g1 = player_bind (target_player self g) ''minion_died'' (Bound self ''_minion_died'') g;
          g2 = player_bind (target_player self g1) ''turn_ended'' (Bound self ''_turn_ended'') g1
      in player_bind (opponent (target_player self g2)) ''turn_ended'' (Bound self ''_turn_ended'') g2)"

definition Resurrect_unapply :: "effect \<Rightarrow> game \<Rightarrow> game" where
  "Resurrect_unapply self g =
     (let g1 = player_unbind (target_player self g) ''minion_died'' (Bound self ''_minion_died'') g;
          g2 = player_unbind (target_player self g1) ''turn_ended'' (Bound self ''_turn_ended'') g1;
          g3 = player_unbind (opponent (target_player self g2)) ''turn_ended''
                 (Bound self ''_turn_ended'') g2
      in g3\<lparr>dead_minions := (dead_minions g3)(ident self := [])\<rparr>)"

subsection \<open>apply and unapply of any effect\<close>

fun apply_effect :: "int \<Rightarrow> effect \<Rightarrow> game \<Rightarrow> error + game" where
  "apply_effect A (KillMinion i t w) g = Inr (KillMinion_apply (KillMinion i t w) g)"
| "apply_effect A (SummonOnDeath i t r c) g = Inr (SummonOnDeath_apply (SummonOnDeath i t r c) g)"
| "apply_effect A (Immune i t) g = Inr (Immune_apply (Immune i t) g)"
| "apply_effect A (DrawOnMinion i t ty) g = Inr (DrawOnMinion_apply (DrawOnMinion i t ty) g)"
| "apply_effect A (ChargeAura i t ps ty) g = Inr (ChargeAura_apply A (ChargeAura i t ps ty) g)"
| "apply_effect A (StatsAura i t a h ps ty) g = Inr (StatsAura_apply A (StatsAura i t a h ps ty) g)"
| "apply_effect A (IncreaseBattlecryMinionCost i t a) g =
     Inr (IncreaseBattlecryMinionCost_apply (IncreaseBattlecryMinionCost i t a) g)"
| "apply_effect A (DoubleDeathrattle i t) g = Inr (DoubleDeathrattle_apply (DoubleDeathrattle i t) g)"
| "apply_effect A (HealAsDamage i t) g = Inr (HealAsDamage_apply (HealAsDamage i t) g)"
| "apply_effect A (ManaFilter i t a ft mi pl) g = Inr (ManaFilter_apply (ManaFilter i t a ft mi pl) g)"
| "apply_effect A (GrowIfSecret i t a h) g = Inr (GrowIfSecret_apply (GrowIfSecret i t a h) g)"
| "apply_effect A (AddCardOnSpell i t c) g = Inr (AddCardOnSpell_apply (AddCardOnSpell i t c) g)"
| "apply_effect A (FreezeOnDamage i t) g = Inr (FreezeOnDamage_apply (FreezeOnDamage i t) g)"
| "apply_effect A (KillOnDamage i t) g = Inr (KillOnDamage_apply (KillOnDamage i t) g)"
| "apply_effect A (DrawOnAttack i t a fp) g = Inr (DrawOnAttack_apply (DrawOnAttack i t a fp) g)"
| "apply_effect A (Buff i t w mf bt a h ps) g = Buff_apply (Buff i t w mf bt a h ps) g"
| "apply_effect A (ResurrectFriendlyMinionsAtEndOfTurn i t) g =
     Inr (Resurrect_apply (ResurrectFriendlyMinionsAtEndOfTurn i t) g)"

fun unapply_effect :: "effect \<Rightarrow> game \<Rightarrow> error + game" where
  "unapply_effect (KillMinion i t w) g = Inr (KillMinion_unapply (KillMinion i t w) g)"
| "unapply_effect (SummonOnDeath i t r c) g = Inr (SummonOnDeath_unapply (SummonOnDeath i t r c) g)"
| "unapply_effect (Immune i t) g = Inr (Immune_unapply (Immune i t) g)"
| "unapply_effect (DrawOnMinion i t ty) g = Inr (DrawOnMinion_unapply (DrawOnMinion i t ty) g)"
| "unapply_effect (ChargeAura i t ps ty) g = Inr (ChargeAura_unapply (ChargeAura i t ps ty) g)"
| "unapply_effect (StatsAura i t a h ps ty) g = Inr (StatsAura_unapply (StatsAura i t a h ps ty) g)"
| "unapply_effect (IncreaseBattlecryMinionCost i t a) g =
     IncreaseBattlecryMinionCost_unapply (IncreaseBattlecryMinionCost i t a) g"
| "unapply_effect (DoubleDeathrattle i t) g = Inr (DoubleDeathrattle_unapply (DoubleDeathrattle i t) g)"
| "unapply_effect (HealAsDamage i t) g = Inr (HealAsDamage_unapply (HealAsDamage i t) g)"
| "unapply_effect (ManaFilter i t a ft mi pl) g = ManaFilter_unapply (ManaFilter i t a ft mi pl) g"
| "unapply_effect (GrowIfSecret i t a h) g = Inr (GrowIfSecret_unapply (GrowIfSecret i t a h) g)"
| "unapply_effect (AddCardOnSpell i t c) g = Inr (AddCardOnSpell_unapply (AddCardOnSpell i t c) g)"
| "unapply_effect (FreezeOnDamage i t) g = Inr (FreezeOnDamage_unapply (FreezeOnDamage i t) g)"
| "unapply_effect (KillOnDamage i t) g = Inr (KillOnDamage_unapply (KillOnDamage i t) g)"
| "unapply_effect (DrawOnAttack i t a fp) g = Inr (DrawOnAttack_unapply (DrawOnAttack i t a fp) g)"
| "unapply_effect (Buff i t w mf bt a h ps) g = Buff_unapply (Buff i t w mf bt a h ps) g"
| "unapply_effect (ResurrectFriendlyMinionsAtEndOfTurn i t) g =
     Inr (Resurrect_unapply (ResurrectFriendlyMinionsAtEndOfTurn i t) g)"

subsection \<open>The effect registry\<close>

text \<open>
  Modelled from the spec: the code that attaches an effect to a minion and detaches it
  is not in \<^verbatim>\<open>effects/minion.py\<close>. Before an effect of kind K applies,
  \<^verbatim>\<open>effect_count[K]\<close> of the target's player is incremented; before it unapplies, the
  count is decremented.
\<close>

definition change_effect_count :: "effect \<Rightarrow> int \<Rightarrow> game \<Rightarrow> game" where
  "change_effect_count self d g =
     update_player (target_player self g)
       (\<lambda>s. s\<lparr>effect_count :=
                (effect_count s)(effect_class self := effect_count s (effect_class self) + d)\<rparr>) g"

definition add_effect :: "int \<Rightarrow> effect \<Rightarrow> game \<Rightarrow> error + game" where
  "add_effect A self g = apply_effect A self (change_effect_count self 1 g)"

definition remove_effect :: "effect \<Rightarrow> game \<Rightarrow> error + game" where
  "remove_effect self g = unapply_effect self (change_effect_count self (- 1) g)"

subsection \<open>Collaborators\<close>

text \<open>
  The methods of minions, players and the game that the callbacks call and that are
  defined outside \<^verbatim>\<open>effects/minion.py\<close> are parameters: \<^verbatim>\<open>minion.die(None)\<close>,
  \<^verbatim>\<open>character.freeze()\<close>, \<^verbatim>\<open>player.draw()\<close>, \<^verbatim>\<open>minion.change_attack(n)\<close>,
  \<^verbatim>\<open>minion.increase_health(n)\<close>, \<^verbatim>\<open>minion.decrease_health(n)\<close>,
  \<^verbatim>\<open>game.random(lo, hi)\<close>, \<^verbatim>\<open>game.check_delayed()\<close>, the deathrattles that cards bring,
  and the table behind \<^verbatim>\<open>MINION_TYPE.from_str\<close> (\<open>None\<close> where the lookup raises
  \<^verbatim>\<open>KeyError\<close>).
\<close>

text \<open>What takes damage: a minion, or a player's hero (which is no \<^verbatim>\<open>Minion\<close>).\<close>

datatype character = Minion_character minion_id | Hero_character player_id

record collaborators =
  die :: "minion_id \<Rightarrow> game \<Rightarrow> game"
  freeze :: "character \<Rightarrow> game \<Rightarrow> game"
  draw :: "player_id \<Rightarrow> game \<Rightarrow> game"
  change_attack :: "minion_id \<Rightarrow> int \<Rightarrow> game \<Rightarrow> game"
  increase_health :: "minion_id \<Rightarrow> int \<Rightarrow> game \<Rightarrow> game"
  decrease_health :: "minion_id \<Rightarrow> int \<Rightarrow> game \<Rightarrow> game"
  random :: "game \<Rightarrow> int \<Rightarrow> int \<Rightarrow> int"
  check_delayed :: "game \<Rightarrow> game"
  card_deathrattle :: "string \<Rightarrow> minion_id \<Rightarrow> game \<Rightarrow> game"
  from_str :: "string \<Rightarrow> int option"

text \<open>
  Modelled from the spec: \<^verbatim>\<open>summon(player, game, index)\<close> is a method of the card
  classes, which are not in \<^verbatim>\<open>effects/minion.py\<close>. It creates the card's minion for
  the player and places it on that player's board at the index (\<^verbatim>\<open>list.insert\<close>: an
  index at or beyond the length appends).
\<close>

definition new_minion :: "card \<Rightarrow> player_id \<Rightarrow> minion" where
  "new_minion c p =
     \<lparr>player = p, minion_card = c, charge = False, immune = False, deathrattle = None,
      minion_events = (\<lambda>event. [])\<rparr>"

definition summon :: "card \<Rightarrow> player_id \<Rightarrow> nat \<Rightarrow> game \<Rightarrow> game" where
  "summon c p index g =
     (let m = next_minion g;
          g1 = g\<lparr>minion := (minion g)(m := new_minion c p), next_minion := Suc m\<rparr>
      in update_player p
           (\<lambda>s. s\<lparr>minions := take index (minions s) @ [m] @ drop index (minions s)\<rparr>) g1)"

subsection \<open>Callback bodies\<close>

text \<open>\<^verbatim>\<open>SummonOnDeath.summon_replacement\<close>: the loop, then the method.\<close>

fun summon_loop :: "nat \<Rightarrow> effect \<Rightarrow> game \<Rightarrow> game" where
  "summon_loop 0 self g = g"
| "summon_loop (Suc n) self g =
     summon_loop n self
       (summon (replacement self) (target_player self g)
          (length (minions (game_players g (target_player self g)))) g)"

fun run_deathrattle :: "collaborators \<Rightarrow> deathrattle \<Rightarrow> minion_id \<Rightarrow> game \<Rightarrow> game" where
  "run_deathrattle X (Card_deathrattle n) m g = card_deathrattle X n m g"
| "run_deathrattle X (Summon_replacement self None) m g = summon_loop (nat (count self)) self g"
| "run_deathrattle X (Summon_replacement self (Some old)) m g =
     summon_loop (nat (count self)) self (run_deathrattle X old m g)"

text \<open>\<^verbatim>\<open>DrawOnMinion.check_minion_draw\<close>.\<close>

definition check_minion_draw :: "collaborators \<Rightarrow> int \<Rightarrow> effect \<Rightarrow> minion_id \<Rightarrow> game \<Rightarrow> game" where
  "check_minion_draw X MINION_TYPE_ALL self new_minion_id g =
     (if (minion_type self \<noteq> MINION_TYPE_ALL \<and>
          card_minion_type (minion_card (minion g new_minion_id)) = minion_type self) \<and>
         new_minion_id \<noteq> target self
      then draw X (target_player self g) g
      else g)"

text \<open>\<^verbatim>\<open>AddCardOnSpell.add_card\<close>.\<close>

definition add_card :: "effect \<Rightarrow> card \<Rightarrow> game \<Rightarrow> game" where
  "add_card self spell_card g =
     (if length (hand (game_players g (target_player self g))) < 10
      then update_player (target_player self g) (\<lambda>s. s\<lparr>hand := hand s @ [card_class self]\<rparr>) g
      else g)"

text \<open>\<^verbatim>\<open>ResurrectFriendlyMinionsAtEndOfTurn._minion_died\<close> and \<^verbatim>\<open>._turn_ended\<close>.\<close>

definition Resurrect_minion_died :: "effect \<Rightarrow> minion_id \<Rightarrow> game \<Rightarrow> game" where
  "Resurrect_minion_died self dead_minion g =
     g\<lparr>dead_minions :=
         (dead_minions g)(ident self :=
            dead_minions g (ident self) @ [minion_card (minion g dead_minion)])\<rparr>"

definition Resurrect_turn_ended :: "effect \<Rightarrow> game \<Rightarrow> game" where
  "Resurrect_turn_ended self g =
     foldl (\<lambda>s c. summon c (target_player self s)
                    (length (minions (game_players s (target_player self s)))) s)
       g (dead_minions g (ident self))"

text \<open>
  \<^verbatim>\<open>Buff._do_action\<close>. \<^verbatim>\<open>targets[i]\<close> is Python's indexing: a negative index counts
  from the end, an index out of range raises \<^verbatim>\<open>IndexError\<close>.
\<close>

definition py_index :: "'a list \<Rightarrow> int \<Rightarrow> error + 'a" where
  "py_index xs i =
     (if 0 \<le> i \<and> i < int (length xs) then Inr (xs ! nat i)
      else if i < 0 \<and> - int (length xs) \<le> i then Inr (xs ! nat (int (length xs) + i))
      else Inl IndexError)"

definition Buff_targets :: "effect \<Rightarrow> game \<Rightarrow> error + minion_id list" where
  "Buff_targets self g =
     (if buff_target self = ''random''
      then list_remove (target self)
             (minions (game_players g (target_player self g)) @
              minions (game_players g (opponent (target_player self g))))
      else if buff_target self = ''random_friendly''
      then list_remove (target self) (minions (game_players g (target_player self g)))
      else if buff_target self = ''random_enemy''
      then Inr (minions (game_players g (opponent (target_player self g))))
      else Inl RuntimeError)"

definition Buff_change_stats :: "collaborators \<Rightarrow> effect \<Rightarrow> minion_id \<Rightarrow> game \<Rightarrow> game" where
  "Buff_change_stats X self t g =
     (let g1 = (if health self > 0 then increase_health X t (health self) g
                else if health self < 0 then decrease_health X t (- health self) g
                else g)
      in if attack self \<noteq> 0 then change_attack X t (attack self) g1 else g1)"

definition Buff_do_action :: "collaborators \<Rightarrow> effect \<Rightarrow> game \<Rightarrow> error + game" where
  "Buff_do_action X self g =
     (if buff_target self = ''self'' then Inr (Buff_change_stats X self (target self) g)
      else and_then (Buff_targets self g) (\<lambda>targets.
           and_then (py_index targets (random X g 0 (int (length targets) - 1))) (\<lambda>t.
           Inr (Buff_change_stats X self t g))))"

text \<open>
  \<^verbatim>\<open>Buff._check_minion_filter\<close>. The \<^verbatim>\<open>try\<close> block ends in \<^verbatim>\<open>except KeyError: pass\<close>:
  a \<^verbatim>\<open>KeyError\<close> of the lookup or of the action is swallowed (no modelled step of the
  action raises one).
\<close>

definition Buff_check_minion_filter :: "collaborators \<Rightarrow> effect \<Rightarrow> minion_id \<Rightarrow> game \<Rightarrow> error + game" where
  "Buff_check_minion_filter X self m g =
     (if minion_filter self = ''self''
      then (if m = target self then Buff_do_action X self g else Inr g)
      else if minion_filter self = ''minion'' then Buff_do_action X self g
      else if minion_filter self = ''deathrattle'' \<and> deathrattle (minion g m) \<noteq> None
      then Buff_do_action X self g
      else (case from_str X (minion_filter self) of
              None \<Rightarrow> Inr g
            | Some type_id \<Rightarrow>
                if card_minion_type (minion_card (minion g m)) = type_id
                then (case Buff_do_action X self g of
                        Inl KeyError \<Rightarrow> Inr g
                      | r \<Rightarrow> r)
                else Inr g))"

text \<open>\<^verbatim>\<open>Buff._check_card_filter\<close>.\<close>

definition Buff_check_card_filter :: "collaborators \<Rightarrow> effect \<Rightarrow> card \<Rightarrow> game \<Rightarrow> error + game" where
  "Buff_check_card_filter X self c g =
     (if minion_filter self = ''spell'' \<and> is_spell c then Buff_do_action X self g
      else if minion_filter self = ''secret'' \<and> is_secret_card c then Buff_do_action X self g
      else Inr g)"

text \<open>
  The closures of \<^verbatim>\<open>ChargeAura.give_charge_if_beast\<close>: \<^verbatim>\<open>silenced\<close>,
  \<^verbatim>\<open>target_silenced\<close> and \<^verbatim>\<open>copied\<close> of \<^verbatim>\<open>give_permacharge_effect(minion)\<close>, then
  \<^verbatim>\<open>silenced\<close> of \<^verbatim>\<open>watch_for_silence(minion)\<close> and the \<^verbatim>\<open>lambda\<close> bound to the target.
\<close>

definition permacharge_silenced :: "effect \<Rightarrow> minion_id \<Rightarrow> game \<Rightarrow> game" where
  "permacharge_silenced self m g = set_charge m True g"

definition target_silenced :: "effect \<Rightarrow> minion_id \<Rightarrow> game \<Rightarrow> game" where
  "target_silenced self m g =
     (let g1 = minion_unbind m ''silenced'' (Permacharge_silenced self m) g;
          g2 = minion_unbind m ''copied'' (Permacharge_copied self m) g1
      in set_charge m False g2)"

definition copied :: "effect \<Rightarrow> minion_id \<Rightarrow> minion_id \<Rightarrow> player_id \<Rightarrow> game \<Rightarrow> game" where
  "copied self m new_minion_id new_owner g = set_charge new_minion_id False g"

definition watch_silenced :: "effect \<Rightarrow> minion_id \<Rightarrow> game \<Rightarrow> error + game" where
  "watch_silenced self m g =
     and_then (list_remove m (charged_minions g (ident self))) (\<lambda>cs.
       Inr (give_permacharge_effect self m
              (g\<lparr>charged_minions := (charged_minions g)(ident self := cs)\<rparr>)))"

definition watch_unbind :: "effect \<Rightarrow> minion_id \<Rightarrow> game \<Rightarrow> game" where
  "watch_unbind self m g = minion_unbind m ''silenced'' (Watch_silenced self m) g"

text \<open>\<^verbatim>\<open>KillMinion.die\<close> and \<^verbatim>\<open>GrowIfSecret.increase_stats\<close>.\<close>

definition KillMinion_die :: "collaborators \<Rightarrow> effect \<Rightarrow> game \<Rightarrow> game" where
  "KillMinion_die X self g = die X (target self) g"

definition increase_stats :: "collaborators \<Rightarrow> effect \<Rightarrow> game \<Rightarrow> game" where
  "increase_stats X self g =
     (if length (secrets (game_players g (target_player self g))) > 0
      then increase_health X (target self) (health self)
             (change_attack X (target self) (attack self) g)
      else g)"

text \<open>
  \<^verbatim>\<open>DoubleDeathrattle.trigger_deathrattle\<close>: the call \<^verbatim>\<open>minion.deathrattle(minion)\<close> raises
  \<^verbatim>\<open>TypeError\<close> when the slot holds \<^verbatim>\<open>None\<close>.
\<close>

definition trigger_deathrattle ::
  "collaborators \<Rightarrow> effect \<Rightarrow> minion_id \<Rightarrow> game \<Rightarrow> error + game" where
  "trigger_deathrattle X self m g =
     (case deathrattle (minion g m) of
        None \<Rightarrow> Inl TypeError
      | Some d \<Rightarrow> Inr (run_deathrattle X d m g))"

text \<open>\<^verbatim>\<open>FreezeOnDamage.did_damage\<close>, \<^verbatim>\<open>KillOnDamage.did_damage\<close> and \<^verbatim>\<open>DrawOnAttack.draw\<close>.\<close>

definition FreezeOnDamage_did_damage ::
  "collaborators \<Rightarrow> effect \<Rightarrow> int \<Rightarrow> character \<Rightarrow> game \<Rightarrow> game" where
  "FreezeOnDamage_did_damage X self n damaged_minion g = freeze X damaged_minion g"

fun KillOnDamage_did_damage ::
  "collaborators \<Rightarrow> effect \<Rightarrow> int \<Rightarrow> character \<Rightarrow> game \<Rightarrow> game" where
  "KillOnDamage_did_damage X self n (Minion_character m) g = check_delayed X (die X m g)"
| "KillOnDamage_did_damage X self n (Hero_character p) g = g"

definition DrawOnAttack_draw :: "collaborators \<Rightarrow> effect \<Rightarrow> game \<Rightarrow> game" where
  "DrawOnAttack_draw X self g =
     ((draw X (if first_player self then First else Second)) ^^ nat (amount self)) g"

subsection \<open>Publishing an event without arguments\<close>

text \<open>
  Calling a callback with no arguments, as the events \<^verbatim>\<open>silenced\<close>, \<^verbatim>\<open>turn_ended\<close> and
  \<^verbatim>\<open>turn_started\<close> do. The callbacks of this file that take no argument run their
  bodies; every other one requires arguments and the call raises \<^verbatim>\<open>TypeError\<close>.
\<close>

definition call_method :: "collaborators \<Rightarrow> effect \<Rightarrow> string \<Rightarrow> game \<Rightarrow> error + game" where
  "call_method X self n g =
     (if effect_class self = ''KillMinion'' \<and> n = ''die'' then Inr (KillMinion_die X self g)
      else if effect_class self = ''Immune'' \<and> n = ''remove_immunity''
      then Inr (remove_immunity self g)
      else if effect_class self = ''GrowIfSecret'' \<and> n = ''increase_stats''
      then Inr (increase_stats X self g)
      else if effect_class self = ''Buff'' \<and> n = ''_do_action'' then Buff_do_action X self g
      else if effect_class self = ''ResurrectFriendlyMinionsAtEndOfTurn'' \<and> n = ''_turn_ended''
      then Inr (Resurrect_turn_ended self g)
      else Inl TypeError)"

fun call_callback :: "collaborators \<Rightarrow> callback \<Rightarrow> game \<Rightarrow> error + game" where
  "call_callback X (Bound self n) g = call_method X self n g"
| "call_callback X (Permacharge_silenced self m) g = Inr (permacharge_silenced self m g)"
| "call_callback X (Permacharge_target_silenced self m) g = Inr (target_silenced self m g)"
| "call_callback X (Permacharge_copied self m) g = Inl TypeError"
| "call_callback X (Watch_silenced self m) g = watch_silenced self m g"
| "call_callback X (Watch_unbind self m) g = Inr (watch_unbind self m g)"

text \<open>
  Modelled from the spec: \<^verbatim>\<open>trigger\<close> is part of the event bus, which is not in
  \<^verbatim>\<open>effects/minion.py\<close>. The listeners registered for the event when it is published
  are called in registration order; what a callback binds or unbinds meanwhile changes
  the next publish only; a one-shot entry is removed right after its call, before the
  next entry runs; an error ends the publish.
\<close>

fun run_handlers ::
  "collaborators \<Rightarrow> (handler \<Rightarrow> game \<Rightarrow> game) \<Rightarrow> handler list \<Rightarrow> game \<Rightarrow> error + game" where
  "run_handlers X discard [] g = Inr g"
| "run_handlers X discard (h # hs) g =
     and_then (call_callback X (fst h) g)
       (\<lambda>g1. run_handlers X discard hs (if snd h then discard h g1 else g1))"

definition discard_once :: "minion_id \<Rightarrow> string \<Rightarrow> handler \<Rightarrow> game \<Rightarrow> game" where
  "discard_once m event h =
     update_minion m
       (\<lambda>s. s\<lparr>minion_events := (minion_events s)(event := remove1 h (minion_events s event))\<rparr>)"

definition minion_trigger :: "collaborators \<Rightarrow> minion_id \<Rightarrow> string \<Rightarrow> game \<Rightarrow> error + game" where
  "minion_trigger X m event g =
     run_handlers X (discard_once m event) (minion_events (minion g m) event) g"

definition player_discard_once :: "player_id \<Rightarrow> string \<Rightarrow> handler \<Rightarrow> game \<Rightarrow> game" where
  "player_discard_once p event h =
     update_player p
       (\<lambda>s. s\<lparr>player_events := (player_events s)(event := remove1 h (player_events s event))\<rparr>)"

definition player_trigger :: "collaborators \<Rightarrow> player_id \<Rightarrow> string \<Rightarrow> game \<Rightarrow> error + game" where
  "player_trigger X p event g =
     run_handlers X (player_discard_once p event) (player_events (game_players g p) event) g"

subsection \<open>The mana filter chain\<close>

text \<open>The predicates that the source stores in \<^verbatim>\<open>Filter.filter\<close>.\<close>

fun filter_matches :: "card_filter \<Rightarrow> card \<Rightarrow> bool" where
  "filter_matches Minion_filter c = is_minion_card c"
| "filter_matches Spell_filter c = is_spell c"
| "filter_matches Secret_filter c = is_secret_card c"
| "filter_matches Any_filter c = True"
| "filter_matches Battlecry_minion_filter c = (is_minion_card c \<and> has_battlecry c)"

text \<open>
  Modelled from the spec: the computation of a card's cost from a player's
  \<^verbatim>\<open>mana_filters\<close> is a method of the card class, which is not in
  \<^verbatim>\<open>effects/minion.py\<close>. Its shape is the spec's: start with the base cost; for each
  filter in registration order whose predicate matches the card, adjust the cost by the
  filter's amount and clamp it at the filter's minimum; the final result is floored at 0.
  The direction of the adjustment is the one the source gives to \<^verbatim>\<open>amount\<close>:
  \<^verbatim>\<open>ManaFilter\<close> documents it as \<^verbatim>\<open>The amount to reduce mana by (can be negative)\<close> and
  \<^verbatim>\<open>minimum\<close> as \<^verbatim>\<open>The least amount that this filter can adjust the card to\<close>, and
  \<^verbatim>\<open>IncreaseBattlecryMinionCost\<close> stores \<^verbatim>\<open>-amount\<close> in its filter to raise a cost. So a
  matching filter takes its amount off the cost.
\<close>

fun cost_loop :: "card \<Rightarrow> int \<Rightarrow> Filter list \<Rightarrow> int" where
  "cost_loop c cost [] = cost"
| "cost_loop c cost (f # fs) =
     cost_loop c (if filter_matches (filter' f) c then max (cost - amount' f) (min' f) else cost) fs"

definition effective_cost :: "card \<Rightarrow> player_state \<Rightarrow> int" where
  "effective_cost c p = max 0 (cost_loop c (mana c) (mana_filters p))"


subsection \<open>Example states\<close>

definition vanilla :: card where
  "vanilla = \<lparr>name = ''Wisp'', mana = 0, is_minion_card = True, is_spell = False,
              is_secret_card = False, card_minion_type = 0, has_battlecry = False\<rparr>"

definition empty_player :: player_state where
  "empty_player =
     \<lparr>minions = [], hand = [], secrets = [], mana_filters = [], heal_does_damage = False,
      effect_count = (\<lambda>k. 0), player_events = (\<lambda>event. [])\<rparr>"

text \<open>Two minions, 0 and 1, on the first player's board; nothing bound, nothing counted.\<close>

definition two_minions :: game where
  "two_minions =
     \<lparr>game_players = (\<lambda>p. empty_player)(First := empty_player\<lparr>minions := [0, 1]\<rparr>),
      current_player = First,
      minion = (\<lambda>m. new_minion vanilla First),
      next_minion = 2,
      auras = [],
      affected_minions = (\<lambda>e. []),
      charged_minions = (\<lambda>e. []),
      filter_object = (\<lambda>e. None),
      dead_minions = (\<lambda>e. [])\<rparr>"

text \<open>Running steps one after the other; the first error ends the run.\<close>

fun run_steps :: "(game \<Rightarrow> error + game) list \<Rightarrow> game \<Rightarrow> error + game" where
  "run_steps [] g = Inr g"
| "run_steps (f # fs) g = and_then (f g) (run_steps fs)"

text \<open>The cards of the minions on a player's board, in board order.\<close>

definition board_cards :: "player_id \<Rightarrow> game \<Rightarrow> card list" where
  "board_cards p g = map (\<lambda>m. minion_card (minion g m)) (minions (game_players g p))"

text \<open>
  The store allocates minions at \<open>next_minion\<close>: a minion and the minions on its
  player's board are allocated when their numbers are below it.
\<close>

definition allocated :: "minion_id \<Rightarrow> game \<Rightarrow> bool" where
  "allocated t g =
     (t < next_minion g \<and>
      list_all (\<lambda>m. m < next_minion g) (minions (game_players g (player (minion g t)))))"

text \<open>
  The first statement of \<^verbatim>\<open>summon_replacement\<close>, and the call of a minion's deathrattle
  slot: \<^verbatim>\<open>if f is not None: f(m)\<close>.
\<close>

definition run_optional :: "collaborators \<Rightarrow> deathrattle option \<Rightarrow> minion_id \<Rightarrow> game \<Rightarrow> game" where
  "run_optional X old m g = (case old of None \<Rightarrow> g | Some d \<Rightarrow> run_deathrattle X d m g)"

text \<open>Collaborators that do nothing, and two cards to summon.\<close>

definition idle :: collaborators where
  "idle =
     \<lparr>die = (\<lambda>m g. g), freeze = (\<lambda>m g. g), draw = (\<lambda>p g. g), change_attack = (\<lambda>m n g. g),
      increase_health = (\<lambda>m n g. g), decrease_health = (\<lambda>m n g. g), random = (\<lambda>g lo hi. lo),
      check_delayed = (\<lambda>g. g), card_deathrattle = (\<lambda>n m g. g), from_str = (\<lambda>s. None)\<rparr>"

definition treant :: card where
  "treant = vanilla\<lparr>name := ''Treant'', mana := 1\<rparr>"

definition hyena :: card where
  "hyena = vanilla\<lparr>name := ''Hyena'', mana := 2, card_minion_type := 1\<rparr>"



text \<open>
  An effect is not applied in a game when none of its bound methods is in a listener
  list of a player or a minion, no filter it created is in a list of mana filters, and
  its \<^verbatim>\<open>dead_minions\<close> are as \<^verbatim>\<open>__init__\<close> left them.
\<close>

definition not_applied :: "effect \<Rightarrow> game \<Rightarrow> bool" where
  "not_applied self g =
     ((\<forall>q e n. Bound self n \<notin> fst ` set (player_events (game_players g q) e)) \<and>
      (\<forall>m e n. Bound self n \<notin> fst ` set (minion_events (minion g m) e)) \<and>
      (\<forall>q f. f \<in> set (mana_filters (game_players g q)) \<longrightarrow> created_by f \<noteq> ident self) \<and>
      dead_minions g (ident self) = [])"

text \<open>
  \<^verbatim>\<open>DoubleDeathrattle\<close> and \<^verbatim>\<open>HealAsDamage\<close> read the count that the registry keeps:
  their \<^verbatim>\<open>apply\<close> runs after the count has been incremented and their \<^verbatim>\<open>unapply\<close> after
  it has been decremented, that is, through \<open>add_effect\<close> and \<open>remove_effect\<close>.
\<close>

fun count_gated :: "effect \<Rightarrow> bool" where
  "count_gated (DoubleDeathrattle i t) = True"
| "count_gated (HealAsDamage i t) = True"
| "count_gated self = False"

text \<open>
  The effects whose \<^verbatim>\<open>unapply\<close> takes back what \<^verbatim>\<open>apply\<close> did, with the condition under
  which it does: \<^verbatim>\<open>Immune.unapply\<close> clears the flag whatever it was before, \<^verbatim>\<open>Buff\<close>
  raises on an unknown \<^verbatim>\<open>players\<close>, and \<^verbatim>\<open>HealAsDamage.unapply\<close> clears
  \<^verbatim>\<open>heal_does_damage\<close> when the count is back at 0, so the flag has to agree with the count
  before: off while no instance is counted. \<^verbatim>\<open>SummonOnDeath\<close> and \<^verbatim>\<open>StatsAura\<close> have an
  empty \<^verbatim>\<open>unapply\<close>, and \<^verbatim>\<open>ChargeAura.unapply\<close> unbinds \<^verbatim>\<open>minion_played\<close> only.
\<close>

fun takes_back :: "effect \<Rightarrow> game \<Rightarrow> bool" where
  "takes_back (Immune i t) g = (\<not> immune (minion g t))"
| "takes_back (Buff i t w mf bt a h ps) g = (ps = ''friendly'' \<or> ps = ''enemy'' \<or> ps = ''both'')"
| "takes_back (HealAsDamage i t) g =
     (effect_count (game_players g (player (minion g t))) ''HealAsDamage'' \<noteq> 0
      \<or> \<not> heal_does_damage (game_players g (player (minion g t))))"
| "takes_back (SummonOnDeath i t r c) g = False"
| "takes_back (StatsAura i t a h ps ty) g = False"
| "takes_back (ChargeAura i t ps ty) g = False"
| "takes_back self g = True"

text \<open>
  Three minions on the first player's board: 0 and 1 without charge, 2 with charge.
\<close>

definition three_minions :: game where
  "three_minions =
     two_minions
       \<lparr>game_players := (game_players two_minions)(First := empty_player\<lparr>minions := [0, 1, 2]\<rparr>),
        minion := (minion two_minions)(2 := (new_minion vanilla First)\<lparr>charge := True\<rparr>),
        next_minion := 3\<rparr>"

text \<open>
  The listeners that a \<^verbatim>\<open>ChargeAura\<close> puts on its own target for another minion: the
  \<^verbatim>\<open>lambda\<close> of \<^verbatim>\<open>watch_for_silence\<close> and \<^verbatim>\<open>target_silenced\<close>, both bound with
  \<^verbatim>\<open>bind_once\<close>.
\<close>

fun source_listener :: "effect \<Rightarrow> handler \<Rightarrow> bool" where
  "source_listener E (Watch_unbind E' m, once) = (E' = E \<and> m \<noteq> target E \<and> once)"
| "source_listener E (Permacharge_target_silenced E' m, once) = (E' = E \<and> m \<noteq> target E \<and> once)"
| "source_listener E (f, once) = False"

section \<open>Properties\<close>

subsection \<open>State lemmas\<close>

lemma game_players_update_player:
  "game_players (update_player p f g) q = (if q = p then f (game_players g p) else game_players g q)"
  by (simp add: update_player_def)

lemma minion_update_player: "minion (update_player p f g) = minion g"
  by (simp add: update_player_def)

lemma target_player_update_player: "target_player self (update_player p f g) = target_player self g"
  by (simp add: target_player_def minion_update_player)

lemma player_events_player_bind:
  "player_events (game_players (player_bind p event f g) q) e =
     (if q = p \<and> e = event then player_events (game_players g p) event @ [(f, False)]
      else player_events (game_players g q) e)"
  by (simp add: player_bind_def game_players_update_player bind_def)

subsection \<open>DrawOnMinion\<close>

text \<open>
  C8. A \<^verbatim>\<open>DrawOnMinion\<close> effect constructed with \<^verbatim>\<open>minion_type = MINION_TYPE.ALL\<close>
  subscribes \<^verbatim>\<open>check_minion_draw\<close> to \<^verbatim>\<open>minion_placed\<close>, and that callback leaves the game
  as it is for every placed minion, whatever \<^verbatim>\<open>draw\<close> does: the condition asks for
  \<^verbatim>\<open>minion_type != MINION_TYPE.ALL\<close>, so no card is ever drawn.
\<close>

theorem DrawOnMinion_ALL_never_draws:
  "check_minion_draw X MINION_TYPE_ALL (DrawOnMinion i t MINION_TYPE_ALL) new_minion_id g = g
   \<and> player_events
       (game_players (DrawOnMinion_apply (DrawOnMinion i t MINION_TYPE_ALL) g)
          (target_player (DrawOnMinion i t MINION_TYPE_ALL) g)) ''minion_placed''
     = player_events (game_players g (target_player (DrawOnMinion i t MINION_TYPE_ALL) g))
         ''minion_placed''
       @ [(Bound (DrawOnMinion i t MINION_TYPE_ALL) ''check_minion_draw'', False)]"
  by (simp add: check_minion_draw_def DrawOnMinion_apply_def player_events_player_bind)

text \<open>With a minion type of its own the callback does draw, for another minion of that type.\<close>

lemma check_minion_draw_typed:
  "ty \<noteq> MINION_TYPE_ALL \<Longrightarrow> card_minion_type (minion_card (minion g m)) = ty \<Longrightarrow> m \<noteq> t \<Longrightarrow>
   check_minion_draw X MINION_TYPE_ALL (DrawOnMinion i t ty) m g
     = draw X (target_player (DrawOnMinion i t ty) g) g"
  by (simp add: check_minion_draw_def)

subsection \<open>AddCardOnSpell\<close>

text \<open>
  C9. \<^verbatim>\<open>AddCardOnSpell.apply\<close> subscribes \<^verbatim>\<open>add_card\<close> to the owning player's
  \<^verbatim>\<open>spell_cast\<close>; a call of \<^verbatim>\<open>add_card\<close> appends exactly one card (the effect's) to that
  player's hand when the hand holds fewer than 10 cards and leaves the hand as it is
  when it holds 10 or more, so the hand is never longer afterwards than the larger of
  10 and its length before.
\<close>

theorem add_card_hand_limit:
  "hand (game_players (add_card self spell_card g) (target_player self g)) =
     (if length (hand (game_players g (target_player self g))) < 10
      then hand (game_players g (target_player self g)) @ [card_class self]
      else hand (game_players g (target_player self g)))
   \<and> length (hand (game_players (add_card self spell_card g) (target_player self g)))
       \<le> max 10 (length (hand (game_players g (target_player self g))))
   \<and> player_events (game_players (AddCardOnSpell_apply self g) (target_player self g)) ''spell_cast''
       = player_events (game_players g (target_player self g)) ''spell_cast''
         @ [(Bound self ''add_card'', False)]"
  by (simp add: add_card_def game_players_update_player AddCardOnSpell_apply_def
      player_events_player_bind)

subsection \<open>Count-gated effects\<close>

lemma add_HealAsDamage:
  "add_effect A (HealAsDamage i t) g =
     Inr (let g1 = change_effect_count (HealAsDamage i t) 1 g in
          if effect_count (game_players g (player (minion g t))) ''HealAsDamage'' = 0
          then update_player (player (minion g t)) (\<lambda>s. s\<lparr>heal_does_damage := True\<rparr>) g1
          else g1)"
  by (simp add: add_effect_def HealAsDamage_apply_def change_effect_count_def
      minion_update_player game_players_update_player target_player_def Let_def)

lemma remove_HealAsDamage:
  "remove_effect (HealAsDamage i t) g =
     Inr (let g1 = change_effect_count (HealAsDamage i t) (- 1) g in
          if effect_count (game_players g (player (minion g t))) ''HealAsDamage'' = 1
          then update_player (player (minion g t)) (\<lambda>s. s\<lparr>heal_does_damage := False\<rparr>) g1
          else g1)"
  by (simp add: remove_effect_def HealAsDamage_unapply_def change_effect_count_def
      minion_update_player game_players_update_player target_player_def Let_def)

text \<open>
  \<^verbatim>\<open>HealAsDamage\<close>: the flag is set by the first instance, stays while one instance is
  left, and is cleared with the last one, whichever instance is removed first.
\<close>

lemma HealAsDamage_count_gated:
  assumes "player (minion g t1) = p" and "player (minion g t2) = p"
    and "effect_count (game_players g p) ''HealAsDamage'' = 0"
    and "{a, b} = {HealAsDamage i1 t1, HealAsDamage i2 t2}"
  shows "\<exists>g1 g2 g3 g4.
           add_effect A (HealAsDamage i1 t1) g = Inr g1 \<and> heal_does_damage (game_players g1 p) \<and>
           add_effect A (HealAsDamage i2 t2) g1 = Inr g2 \<and> heal_does_damage (game_players g2 p) \<and>
           remove_effect a g2 = Inr g3 \<and> heal_does_damage (game_players g3 p) \<and>
           remove_effect b g3 = Inr g4 \<and> \<not> heal_does_damage (game_players g4 p)"
proof -
  from assms(4) consider "a = HealAsDamage i1 t1 \<and> b = HealAsDamage i2 t2"
    | "a = HealAsDamage i2 t2 \<and> b = HealAsDamage i1 t1"
    by (auto simp: doubleton_eq_iff)
  then show ?thesis
    using assms(1-3)
    by cases (simp_all add: add_HealAsDamage remove_HealAsDamage Let_def change_effect_count_def
        target_player_def game_players_update_player minion_update_player)
qed

lemma add_DoubleDeathrattle:
  "add_effect A (DoubleDeathrattle i t) g =
     Inr (let g1 = change_effect_count (DoubleDeathrattle i t) 1 g in
          if effect_count (game_players g (player (minion g t))) ''DoubleDeathrattle'' = 0
          then player_bind (player (minion g t)) ''minion_died''
                 (Bound (DoubleDeathrattle i t) ''trigger_deathrattle'') g1
          else g1)"
  by (simp add: add_effect_def DoubleDeathrattle_apply_def change_effect_count_def
      minion_update_player game_players_update_player target_player_def Let_def)

lemma remove_DoubleDeathrattle:
  "remove_effect (DoubleDeathrattle i t) g =
     Inr (let g1 = change_effect_count (DoubleDeathrattle i t) (- 1) g in
          if effect_count (game_players g (player (minion g t))) ''DoubleDeathrattle'' = 1
          then player_unbind (player (minion g t)) ''minion_died''
                 (Bound (DoubleDeathrattle i t) ''trigger_deathrattle'') g1
          else g1)"
  by (simp add: remove_effect_def DoubleDeathrattle_unapply_def change_effect_count_def
      minion_update_player game_players_update_player target_player_def Let_def)

lemma remove_first_append_fresh:
  "f \<notin> fst ` set hs \<Longrightarrow> remove_first f (hs @ [(f, b)]) = hs"
  by (induction hs) auto

lemma remove_first_absent: "f \<notin> fst ` set hs \<Longrightarrow> remove_first f hs = hs"
  by (induction hs) auto

lemma remove_first_append_other:
  "f \<notin> fst ` set hs \<Longrightarrow> f \<noteq> f' \<Longrightarrow> remove_first f (hs @ [(f', b)]) = hs @ [(f', b)]"
  by (simp add: remove_first_absent)

lemma minion_player_bind: "minion (player_bind p e f g) = minion g"
  by (simp add: player_bind_def minion_update_player)

lemma minion_player_unbind: "minion (player_unbind p e f g) = minion g"
  by (simp add: player_unbind_def minion_update_player)

lemma minion_change_effect_count: "minion (change_effect_count self d g) = minion g"
  by (simp add: change_effect_count_def minion_update_player)

lemma player_events_player_unbind:
  "player_events (game_players (player_unbind p event f g) q) e =
     (if q = p \<and> e = event then remove_first f (player_events (game_players g p) event)
      else player_events (game_players g q) e)"
  by (simp add: player_unbind_def game_players_update_player unbind_def)

lemma effect_count_player_bind:
  "effect_count (game_players (player_bind p e f g) q) = effect_count (game_players g q)"
  by (simp add: player_bind_def game_players_update_player)

lemma effect_count_player_unbind:
  "effect_count (game_players (player_unbind p e f g) q) = effect_count (game_players g q)"
  by (simp add: player_unbind_def game_players_update_player)

lemma effect_count_change_effect_count:
  "effect_count (game_players (change_effect_count self d g) q) k =
     (if q = target_player self g \<and> k = effect_class self
      then effect_count (game_players g q) k + d else effect_count (game_players g q) k)"
  by (simp add: change_effect_count_def game_players_update_player)

lemma player_events_change_effect_count:
  "player_events (game_players (change_effect_count self d g) q) = player_events (game_players g q)"
  by (simp add: change_effect_count_def game_players_update_player)

lemmas dd_simps = add_DoubleDeathrattle remove_DoubleDeathrattle Let_def
  minion_player_bind minion_player_unbind minion_change_effect_count
  player_events_player_bind player_events_player_unbind effect_count_player_bind
  effect_count_player_unbind effect_count_change_effect_count player_events_change_effect_count
  target_player_def

text \<open>
  \<^verbatim>\<open>DoubleDeathrattle\<close>, removed in the reverse order of application: one subscription
  while either instance is applied, none afterwards.
\<close>

lemma DoubleDeathrattle_last_in_first_out:
  assumes "player (minion g t1) = p" and "player (minion g t2) = p"
    and "effect_count (game_players g p) ''DoubleDeathrattle'' = 0"
    and "Bound (DoubleDeathrattle i1 t1) ''trigger_deathrattle''
           \<notin> fst ` set (player_events (game_players g p) ''minion_died'')"
  shows "\<exists>g1 g2 g3 g4.
           add_effect A (DoubleDeathrattle i1 t1) g = Inr g1 \<and>
           add_effect A (DoubleDeathrattle i2 t2) g1 = Inr g2 \<and>
           player_events (game_players g2 p) ''minion_died'' =
             player_events (game_players g p) ''minion_died'' @
               [(Bound (DoubleDeathrattle i1 t1) ''trigger_deathrattle'', False)] \<and>
           remove_effect (DoubleDeathrattle i2 t2) g2 = Inr g3 \<and>
           player_events (game_players g3 p) ''minion_died'' =
             player_events (game_players g2 p) ''minion_died'' \<and>
           remove_effect (DoubleDeathrattle i1 t1) g3 = Inr g4 \<and>
           player_events (game_players g4 p) ''minion_died'' =
             player_events (game_players g p) ''minion_died''"
  using assms by (simp add: dd_simps remove_first_append_fresh)

text \<open>
  Removed in the order of application, the second \<^verbatim>\<open>unapply\<close> unbinds the bound method
  of its own instance, which was never bound: the subscription of the first instance
  stays although the count is back at 0.
\<close>

lemma DoubleDeathrattle_first_in_first_out:
  assumes "player (minion g t1) = p" and "player (minion g t2) = p"
    and "effect_count (game_players g p) ''DoubleDeathrattle'' = 0"
    and "DoubleDeathrattle i1 t1 \<noteq> DoubleDeathrattle i2 t2"
    and "Bound (DoubleDeathrattle i2 t2) ''trigger_deathrattle''
           \<notin> fst ` set (player_events (game_players g p) ''minion_died'')"
  shows "\<exists>g1 g2 g3 g4.
           add_effect A (DoubleDeathrattle i1 t1) g = Inr g1 \<and>
           add_effect A (DoubleDeathrattle i2 t2) g1 = Inr g2 \<and>
           remove_effect (DoubleDeathrattle i1 t1) g2 = Inr g3 \<and>
           remove_effect (DoubleDeathrattle i2 t2) g3 = Inr g4 \<and>
           effect_count (game_players g4 p) ''DoubleDeathrattle'' = 0 \<and>
           player_events (game_players g4 p) ''minion_died'' =
             player_events (game_players g p) ''minion_died'' @
               [(Bound (DoubleDeathrattle i1 t1) ''trigger_deathrattle'', False)]"
  using assms by (auto simp: dd_simps intro!: remove_first_append_other)

text \<open>
  C1. Count-gated effects (\<^verbatim>\<open>HealAsDamage\<close>, \<^verbatim>\<open>DoubleDeathrattle\<close>), with
  \<^verbatim>\<open>effect_count\<close> incremented before \<^verbatim>\<open>apply\<close> and decremented before \<^verbatim>\<open>unapply\<close>:
  two instances on two minions of one player turn the gated state on once, removing one
  leaves it on, removing the second turns it off. \<^verbatim>\<open>HealAsDamage\<close> does so in either
  order (\<open>HealAsDamage_count_gated\<close>). \<^verbatim>\<open>DoubleDeathrattle\<close> does not when the instance
  applied first is removed first: on the board \<open>two_minions\<close>, after both instances are
  applied and both removed, the count is 0 and the \<^verbatim>\<open>minion_died\<close> subscription of the
  first instance is still there.
\<close>

theorem DoubleDeathrattle_subscription_survives:
  "\<not> isl (run_steps
             [add_effect A (DoubleDeathrattle 1 0), add_effect A (DoubleDeathrattle 2 1),
              remove_effect (DoubleDeathrattle 1 0), remove_effect (DoubleDeathrattle 2 1)]
             two_minions)
   \<and> effect_count
        (game_players
           (projr (run_steps
              [add_effect A (DoubleDeathrattle 1 0), add_effect A (DoubleDeathrattle 2 1),
               remove_effect (DoubleDeathrattle 1 0), remove_effect (DoubleDeathrattle 2 1)]
              two_minions)) First) ''DoubleDeathrattle'' = 0
   \<and> player_events
        (game_players
           (projr (run_steps
              [add_effect A (DoubleDeathrattle 1 0), add_effect A (DoubleDeathrattle 2 1),
               remove_effect (DoubleDeathrattle 1 0), remove_effect (DoubleDeathrattle 2 1)]
              two_minions)) First) ''minion_died''
      = [(Bound (DoubleDeathrattle 1 0) ''trigger_deathrattle'', False)]"
  by (simp add: add_effect_def remove_effect_def change_effect_count_def and_then_def
      DoubleDeathrattle_apply_def DoubleDeathrattle_unapply_def target_player_def
      update_player_def player_bind_def player_unbind_def bind_def unbind_def
      two_minions_def empty_player_def new_minion_def)

subsection \<open>The mana filter chain\<close>




lemma minion_append_filter: "minion (append_filter p f g) = minion g"
  by (simp add: append_filter_def minion_update_player)




text \<open>The effective cost is never negative.\<close>

lemma effective_cost_nonneg: "0 \<le> effective_cost c p"
  by (simp add: effective_cost_def)



subsection \<open>SummonOnDeath\<close>

lemma summon_at_end:
  assumes "allocated t g" and "p = player (minion g t)"
  shows "minions (game_players (summon c p (length (minions (game_players g p))) g) p)
           = minions (game_players g p) @ [next_minion g]"
    and "board_cards p (summon c p (length (minions (game_players g p))) g) = board_cards p g @ [c]"
    and "player (minion (summon c p (length (minions (game_players g p))) g) t) = p"
    and "allocated t (summon c p (length (minions (game_players g p))) g)"
    and "next_minion (summon c p (length (minions (game_players g p))) g) = Suc (next_minion g)"
  using assms
  by (auto simp: summon_def Let_def allocated_def board_cards_def update_player_def new_minion_def
      list_all_iff)

lemma summon_loop_at_end:
  "allocated (target self) g \<Longrightarrow>
   minions (game_players (summon_loop n self g) (target_player self g))
     = minions (game_players g (target_player self g)) @ [next_minion g ..< next_minion g + n]
   \<and> board_cards (target_player self g) (summon_loop n self g)
     = board_cards (target_player self g) g @ replicate n (replacement self)
   \<and> target_player self (summon_loop n self g) = target_player self g
   \<and> allocated (target self) (summon_loop n self g)"
proof (induction n arbitrary: g)
  case 0
  then show ?case by simp
next
  case (Suc n)
  let ?p = "target_player self g"
  let ?g1 = "summon (replacement self) ?p (length (minions (game_players g ?p))) g"
  have p: "?p = player (minion g (target self))" by (simp add: target_player_def)
  note s = summon_at_end[OF Suc.prems p, of "replacement self"]
  have tp: "target_player self ?g1 = ?p" using s(3) by (simp add: target_player_def)
  from Suc.IH[OF s(4)] tp s(1,2,5) show ?case
    by (simp add: upt_conv_Cons replicate_app_Cons_same)
qed

lemma run_summon_replacement:
  "run_deathrattle X (Summon_replacement self old) m g =
     summon_loop (nat (count self)) self (run_optional X old m g)"
  by (cases old) (simp_all add: run_optional_def)

lemma SummonOnDeath_apply_slot:
  "deathrattle (minion (SummonOnDeath_apply self g) (target self)) =
     Some (Summon_replacement self (deathrattle (minion g (target self))))"
  by (simp add: SummonOnDeath_apply_def update_minion_def)

text \<open>
  C3. \<^verbatim>\<open>SummonOnDeath.apply\<close> captures what the target's deathrattle slot holds and
  installs \<^verbatim>\<open>summon_replacement\<close>; when that callable runs, it first runs the captured
  original if there is one and then summons \<^verbatim>\<open>count\<close> minions of the replacement card,
  each at index \<^verbatim>\<open>len(player.minions)\<close>, so they follow the board of the owning player in
  order. With two effects attached to a minion with an empty slot, first E1 then E2, the
  board after the death is the board before, then E1's minions, then E2's.
\<close>

theorem SummonOnDeath_chain:
  assumes "allocated (target self) (run_optional X old m g)"
    and "deathrattle (minion g0 t) = None"
    and "allocated t g"
  shows "deathrattle (minion (SummonOnDeath_apply self g) (target self)) =
           Some (Summon_replacement self (deathrattle (minion g (target self))))
    \<and> run_deathrattle X (Summon_replacement self old) m g =
        summon_loop (nat (count self)) self (run_optional X old m g)
    \<and> minions (game_players (run_deathrattle X (Summon_replacement self old) m g)
         (target_player self (run_optional X old m g))) =
        minions (game_players (run_optional X old m g) (target_player self (run_optional X old m g)))
        @ [next_minion (run_optional X old m g) ..<
             next_minion (run_optional X old m g) + nat (count self)]
    \<and> board_cards (target_player self (run_optional X old m g))
         (run_deathrattle X (Summon_replacement self old) m g) =
        board_cards (target_player self (run_optional X old m g)) (run_optional X old m g)
        @ replicate (nat (count self)) (replacement self)
    \<and> board_cards (player (minion g t))
         (run_optional X
            (deathrattle
               (minion (SummonOnDeath_apply (SummonOnDeath i2 t r2 c2)
                          (SummonOnDeath_apply (SummonOnDeath i1 t r1 c1) g0)) t))
            m g) =
        board_cards (player (minion g t)) g @ replicate (nat c1) r1 @ replicate (nat c2) r2"
proof -
  let ?E1 = "SummonOnDeath i1 t r1 c1" and ?E2 = "SummonOnDeath i2 t r2 c2"
  let ?p = "player (minion g t)"
  have slot: "deathrattle (minion (SummonOnDeath_apply ?E2 (SummonOnDeath_apply ?E1 g0)) t)
                = Some (Summon_replacement ?E2 (Some (Summon_replacement ?E1 None)))"
    using assms(2) SummonOnDeath_apply_slot[of ?E1 g0]
      SummonOnDeath_apply_slot[of ?E2 "SummonOnDeath_apply ?E1 g0"]
    by simp
  have a1: "allocated (target ?E1) g" using assms(3) by simp
  note l1 = summon_loop_at_end[OF a1, of "nat c1"]
  have tp: "target_player ?E1 g = ?p" "\<And>s. target_player ?E2 s = target_player ?E1 s"
    by (simp_all add: target_player_def)
  have a2: "allocated (target ?E2) (summon_loop (nat c1) ?E1 g)" using l1 by simp
  note l2 = summon_loop_at_end[OF a2, of "nat c2"]
  have two: "board_cards ?p (summon_loop (nat c2) ?E2 (summon_loop (nat c1) ?E1 g))
          = board_cards ?p g @ replicate (nat c1) r1 @ replicate (nat c2) r2"
    using l1 l2 tp by simp
  show ?thesis
    using summon_loop_at_end[OF assms(1), of "nat (count self)"] two
    by (simp add: SummonOnDeath_apply_slot run_summon_replacement slot run_optional_def)
qed

theorem SummonOnDeath_chain_witness:
  "allocated 0 two_minions
   \<and> board_cards First
       (run_optional idle
          (deathrattle
             (minion (SummonOnDeath_apply (SummonOnDeath 2 0 hyena 2)
                        (SummonOnDeath_apply (SummonOnDeath 1 0 treant 1) two_minions)) 0))
          0 two_minions)
     = [vanilla, vanilla, treant, hyena, hyena]"
proof -
  have a: "allocated 0 two_minions"
    by (simp add: allocated_def two_minions_def new_minion_def empty_player_def)
  have b: "allocated (target (SummonOnDeath 1 0 treant 1)) (run_optional idle None 0 two_minions)"
    using a by (simp add: run_optional_def)
  have c: "deathrattle (minion two_minions 0) = None"
    by (simp add: two_minions_def new_minion_def)
  have d: "board_cards First two_minions = [vanilla, vanilla]"
    by (simp add: board_cards_def two_minions_def new_minion_def empty_player_def)
  have e: "player (minion two_minions 0) = First"
    by (simp add: two_minions_def new_minion_def)
  show ?thesis
    using SummonOnDeath_chain[where ?i1.0 = 1 and ?r1.0 = treant and ?c1.0 = 1 and ?i2.0 = 2
        and ?r2.0 = hyena and ?c2.0 = 2, OF b c a] a d e
    by (simp add: numeral_2_eq_2)
qed

subsection \<open>Buff: a filter that names no minion type\<close>

text \<open>
  C7. For a \<^verbatim>\<open>Buff\<close> whose \<^verbatim>\<open>minion_filter\<close> is none of \<^verbatim>\<open>"self"\<close>, \<^verbatim>\<open>"minion"\<close>,
  \<^verbatim>\<open>"deathrattle"\<close> and is not a name that \<^verbatim>\<open>MINION_TYPE.from_str\<close> knows,
  \<^verbatim>\<open>_check_minion_filter\<close> returns normally and leaves the game as it is: the
  \<^verbatim>\<open>KeyError\<close> of the lookup is caught and the action does not run.
\<close>

theorem Buff_filter_lookup_miss:
  assumes "minion_filter self \<noteq> ''self''" and "minion_filter self \<noteq> ''minion''"
    and "minion_filter self \<noteq> ''deathrattle''"
    and "from_str X (minion_filter self) = None"
  shows "Buff_check_minion_filter X self m g = Inr g"
  using assms by (simp add: Buff_check_minion_filter_def)

theorem Buff_filter_lookup_miss_witness:
  "Buff_check_minion_filter idle (Buff 1 0 ''death'' ''dragon'' ''random'' 1 1 ''friendly'') 1
     two_minions = Inr two_minions
   \<and> from_str idle ''dragon'' = None"
proof -
  have "from_str idle (minion_filter (Buff 1 0 ''death'' ''dragon'' ''random'' 1 1 ''friendly'')) = None"
    by (simp add: idle_def)
  then show ?thesis
    using Buff_filter_lookup_miss[of "Buff 1 0 ''death'' ''dragon'' ''random'' 1 1 ''friendly''" idle 1 two_minions]
    by simp
qed

subsection \<open>ResurrectFriendlyMinionsAtEndOfTurn\<close>

lemma dead_minions_summon: "dead_minions (summon c p i g) = dead_minions g"
  by (simp add: summon_def Let_def update_player_def)

lemma turn_ended_loop:
  "allocated (target self) g \<Longrightarrow>
   board_cards (target_player self g)
     (foldl (\<lambda>s c. summon c (target_player self s)
                    (length (minions (game_players s (target_player self s)))) s) g cs)
     = board_cards (target_player self g) g @ cs
   \<and> dead_minions (foldl (\<lambda>s c. summon c (target_player self s)
                    (length (minions (game_players s (target_player self s)))) s) g cs)
     = dead_minions g
   \<and> target_player self (foldl (\<lambda>s c. summon c (target_player self s)
                    (length (minions (game_players s (target_player self s)))) s) g cs)
     = target_player self g
   \<and> allocated (target self) (foldl (\<lambda>s c. summon c (target_player self s)
                    (length (minions (game_players s (target_player self s)))) s) g cs)"
proof (induction cs arbitrary: g)
  case Nil
  then show ?case by simp
next
  case (Cons c cs)
  let ?p = "target_player self g"
  let ?g1 = "summon c ?p (length (minions (game_players g ?p))) g"
  have p: "?p = player (minion g (target self))" by (simp add: target_player_def)
  note s = summon_at_end[OF Cons.prems p, of c]
  have tp: "target_player self ?g1 = ?p" using s(3) by (simp add: target_player_def)
  from Cons.IH[OF s(4)] tp s(2) show ?case
    by (simp add: dead_minions_summon)
qed

lemma Resurrect_turn_ended_board:
  assumes "allocated (target self) g"
  shows "board_cards (target_player self g) (Resurrect_turn_ended self g)
           = board_cards (target_player self g) g @ dead_minions g (ident self)"
    and "dead_minions (Resurrect_turn_ended self g) = dead_minions g"
    and "target_player self (Resurrect_turn_ended self g) = target_player self g"
    and "allocated (target self) (Resurrect_turn_ended self g)"
  using turn_ended_loop[OF assms, of "dead_minions g (ident self)"]
  by (simp_all add: Resurrect_turn_ended_def)

lemma concat_replicate_append: "concat (replicate n xs) @ xs = xs @ concat (replicate n xs)"
  by (induction n) simp_all

lemma Resurrect_turn_ended_many:
  "allocated (target self) g \<Longrightarrow>
   board_cards (target_player self g) ((Resurrect_turn_ended self ^^ n) g)
     = board_cards (target_player self g) g @ concat (replicate n (dead_minions g (ident self)))
   \<and> dead_minions ((Resurrect_turn_ended self ^^ n) g) = dead_minions g
   \<and> target_player self ((Resurrect_turn_ended self ^^ n) g) = target_player self g
   \<and> allocated (target self) ((Resurrect_turn_ended self ^^ n) g)"
proof (induction n)
  case 0
  then show ?case by simp
next
  case (Suc n)
  let ?g = "(Resurrect_turn_ended self ^^ n) g"
  from Suc have ih: "board_cards (target_player self g) ?g
       = board_cards (target_player self g) g @ concat (replicate n (dead_minions g (ident self)))"
    "dead_minions ?g = dead_minions g" "target_player self ?g = target_player self g"
    "allocated (target self) ?g" by simp_all
  note r = Resurrect_turn_ended_board[OF ih(4)]
  show ?case using r ih
    by (simp add: concat_replicate_append)
qed


lemma Resurrect_apply_events:
  "player_events (game_players (Resurrect_apply self g) q) e =
     player_events (game_players g q) e
     @ (if q = target_player self g \<and> e = ''minion_died'' then [(Bound self ''_minion_died'', False)]
        else if e = ''turn_ended'' then [(Bound self ''_turn_ended'', False)]
        else [])"
  by (cases q; cases "target_player self g")
    (simp_all add: Resurrect_apply_def Let_def player_events_player_bind target_player_def
      minion_player_bind)

lemma Resurrect_apply_dead_minions: "dead_minions (Resurrect_apply self g) = dead_minions g"
  by (simp add: Resurrect_apply_def Let_def player_bind_def update_player_def)

text \<open>
  C10. \<^verbatim>\<open>ResurrectFriendlyMinionsAtEndOfTurn.apply\<close> subscribes \<^verbatim>\<open>_minion_died\<close> to the
  owning player's \<^verbatim>\<open>minion_died\<close> and \<^verbatim>\<open>_turn_ended\<close> to the \<^verbatim>\<open>turn_ended\<close> of both
  players, so that publishing \<^verbatim>\<open>turn_ended\<close> on either player runs \<^verbatim>\<open>_turn_ended\<close>.
  \<^verbatim>\<open>_minion_died\<close> appends the dead minion's card to \<^verbatim>\<open>dead_minions\<close>; \<^verbatim>\<open>_turn_ended\<close>
  summons one minion per recorded card at the end of the owning player's board and
  keeps the record, so n turn ends append the recorded cards n times; \<^verbatim>\<open>apply\<close> leaves
  the record alone and \<^verbatim>\<open>unapply\<close> sets it to the empty list.
\<close>

theorem Resurrect_summons_every_turn:
  assumes "allocated t g"
    and "player_events (game_players g0 q) ''turn_ended'' = []"
  shows "player_events
           (game_players (Resurrect_apply (ResurrectFriendlyMinionsAtEndOfTurn i t) g0)
              (player (minion g0 t))) ''minion_died''
         = player_events (game_players g0 (player (minion g0 t))) ''minion_died''
           @ [(Bound (ResurrectFriendlyMinionsAtEndOfTurn i t) ''_minion_died'', False)]
    \<and> player_trigger X q ''turn_ended'' (Resurrect_apply (ResurrectFriendlyMinionsAtEndOfTurn i t) g0)
        = Inr (Resurrect_turn_ended (ResurrectFriendlyMinionsAtEndOfTurn i t)
                 (Resurrect_apply (ResurrectFriendlyMinionsAtEndOfTurn i t) g0))
    \<and> dead_minions (Resurrect_apply (ResurrectFriendlyMinionsAtEndOfTurn i t) g0) = dead_minions g0
    \<and> dead_minions (Resurrect_minion_died (ResurrectFriendlyMinionsAtEndOfTurn i t) d g) i
        = dead_minions g i @ [minion_card (minion g d)]
    \<and> board_cards (player (minion g t))
         ((Resurrect_turn_ended (ResurrectFriendlyMinionsAtEndOfTurn i t) ^^ n) g)
        = board_cards (player (minion g t)) g @ concat (replicate n (dead_minions g i))
    \<and> dead_minions ((Resurrect_turn_ended (ResurrectFriendlyMinionsAtEndOfTurn i t) ^^ n) g)
        = dead_minions g
    \<and> dead_minions (Resurrect_unapply (ResurrectFriendlyMinionsAtEndOfTurn i t) g) i = []"
proof -
  let ?E = "ResurrectFriendlyMinionsAtEndOfTurn i t"
  have a: "allocated (target ?E) g" using assms(1) by simp
  have ev: "player_events (game_players (Resurrect_apply ?E g0) q) ''turn_ended''
              = [(Bound ?E ''_turn_ended'', False)]"
    using assms(2) by (simp add: Resurrect_apply_events)
  have trig: "player_trigger X q ''turn_ended'' (Resurrect_apply ?E g0)
                = Inr (Resurrect_turn_ended ?E (Resurrect_apply ?E g0))"
    by (simp add: player_trigger_def ev call_method_def and_then_def)
  show ?thesis
    using Resurrect_turn_ended_many[OF a, of n] trig
    by (simp add: Resurrect_apply_events Resurrect_apply_dead_minions Resurrect_minion_died_def
        Resurrect_unapply_def Let_def target_player_def)
qed

theorem Resurrect_summons_every_turn_witness:
  "allocated 0 (Resurrect_minion_died (ResurrectFriendlyMinionsAtEndOfTurn 1 0) 1 two_minions)
   \<and> player_events (game_players two_minions Second) ''turn_ended'' = []
   \<and> board_cards First
        ((Resurrect_turn_ended (ResurrectFriendlyMinionsAtEndOfTurn 1 0) ^^ 2)
           (Resurrect_minion_died (ResurrectFriendlyMinionsAtEndOfTurn 1 0) 1 two_minions))
      = [vanilla, vanilla, vanilla, vanilla]"
proof -
  let ?g = "Resurrect_minion_died (ResurrectFriendlyMinionsAtEndOfTurn 1 0) 1 two_minions"
  have a: "allocated 0 ?g"
    by (simp add: allocated_def Resurrect_minion_died_def two_minions_def new_minion_def
        empty_player_def)
  have b: "player_events (game_players two_minions Second) ''turn_ended'' = []"
    by (simp add: two_minions_def empty_player_def)
  have c: "board_cards First ?g = [vanilla, vanilla]" "player (minion ?g 0) = First"
    "dead_minions ?g 1 = [vanilla]"
    by (simp_all add: board_cards_def Resurrect_minion_died_def two_minions_def new_minion_def
        empty_player_def)
  show ?thesis
    using Resurrect_summons_every_turn[OF a b, where i = 1 and n = 2 and X = idle and d = 0] a b c
    by (simp add: numeral_2_eq_2)
qed

subsection \<open>apply followed by unapply\<close>

lemma unbind_bind: "f \<notin> fst ` set (ls e) \<Longrightarrow> unbind e f (bind e f ls) = ls"
  by (simp add: unbind_def bind_def remove_first_append_fresh)

lemma update_player_twice:
  "update_player p f (update_player p h g) = update_player p (f \<circ> h) g"
  by (simp add: update_player_def)

lemma update_player_same: "f (game_players g p) = game_players g p \<Longrightarrow> update_player p f g = g"
  by (simp add: update_player_def)

lemma update_minion_twice:
  "update_minion m f (update_minion m h g) = update_minion m (f \<circ> h) g"
  by (simp add: update_minion_def)

lemma update_minion_same: "f (minion g m) = minion g m \<Longrightarrow> update_minion m f g = g"
  by (simp add: update_minion_def)

lemma player_unbind_bind:
  "f \<notin> fst ` set (player_events (game_players g p) e) \<Longrightarrow>
   player_unbind p e f (player_bind p e f g) = g"
  by (simp add: player_unbind_def player_bind_def update_player_twice update_player_same unbind_bind)

lemma minion_unbind_bind:
  "f \<notin> fst ` set (minion_events (minion g m) e) \<Longrightarrow>
   minion_unbind m e f (minion_bind m e f g) = g"
  by (simp add: minion_unbind_def minion_bind_def update_minion_twice update_minion_same unbind_bind)

lemma remove_append_filter:
  "f \<notin> set (mana_filters (game_players g p)) \<Longrightarrow>
   remove_filter p (Some f) (append_filter p f g) = Inr g"
  by (simp add: remove_filter_def append_filter_def list_remove_def game_players_update_player
      update_player_twice update_player_same remove1_append)


lemma opponent_neq: "opponent p \<noteq> p" "p \<noteq> opponent p"
  by (cases p; simp)+

lemma update_player_commute:
  "p \<noteq> q \<Longrightarrow> update_player p f (update_player q h g) = update_player q h (update_player p f g)"
  by (simp add: update_player_def fun_upd_twist)

lemma current_player_update_player: "current_player (update_player p f g) = current_player g"
  by (simp add: update_player_def)

lemma unbind_bind_commute:
  "e \<noteq> e' \<Longrightarrow> unbind e f (bind e' f' ls) = bind e' f' (unbind e f ls)"
  by (simp add: unbind_def bind_def fun_upd_twist)

lemma player_unbind_bind_commute:
  "p \<noteq> q \<or> e \<noteq> e' \<Longrightarrow>
   player_unbind p e f (player_bind q e' f' g) = player_bind q e' f' (player_unbind p e f g)"
  by (cases "p = q")
    (simp_all add: player_unbind_def player_bind_def update_player_twice update_player_commute
      unbind_bind_commute comp_def)

lemma Resurrect_undone:
  assumes "not_applied (ResurrectFriendlyMinionsAtEndOfTurn i t) g"
  shows "Resurrect_unapply (ResurrectFriendlyMinionsAtEndOfTurn i t)
           (Resurrect_apply (ResurrectFriendlyMinionsAtEndOfTurn i t) g) = g"
proof -
  let ?E = "ResurrectFriendlyMinionsAtEndOfTurn i t"
  let ?p = "player (minion g t)"
  from assms have fresh: "\<And>q e n. Bound ?E n \<notin> fst ` set (player_events (game_players g q) e)"
    and dm: "dead_minions g i = []"
    by (simp_all add: not_applied_def)
  have "(dead_minions g)(i := []) = dead_minions g"
    using dm by (simp add: fun_eq_iff)
  then show ?thesis
    using fresh
    by (simp add: Resurrect_unapply_def Resurrect_apply_def Let_def target_player_def
        minion_player_bind minion_player_unbind player_unbind_bind_commute player_unbind_bind
        opponent_neq)
qed


lemma not_applied_player:
  "not_applied self g \<Longrightarrow> Bound self n \<notin> fst ` set (player_events (game_players g q) e)"
  by (simp add: not_applied_def)

lemma not_applied_minion:
  "not_applied self g \<Longrightarrow> Bound self n \<notin> fst ` set (minion_events (minion g m) e)"
  by (simp add: not_applied_def)

lemma not_applied_filter:
  "not_applied self g \<Longrightarrow> created_by f = ident self \<Longrightarrow> f \<notin> set (mana_filters (game_players g q))"
  by (auto simp: not_applied_def)

lemma current_player_player_bind: "current_player (player_bind p e f g) = current_player g"
  by (simp add: player_bind_def current_player_update_player)

lemma KillMinion_undone:
  "not_applied self g \<Longrightarrow> KillMinion_unapply self (KillMinion_apply self g) = g"
  by (simp add: KillMinion_unapply_def KillMinion_apply_def player_unbind_bind not_applied_player
      current_player_player_bind)

lemma one_bound_method_undone:
  assumes "not_applied self g"
  shows "DrawOnMinion_unapply self (DrawOnMinion_apply self g) = g"
    and "GrowIfSecret_unapply self (GrowIfSecret_apply self g) = g"
    and "AddCardOnSpell_unapply self (AddCardOnSpell_apply self g) = g"
    and "FreezeOnDamage_unapply self (FreezeOnDamage_apply self g) = g"
    and "KillOnDamage_unapply self (KillOnDamage_apply self g) = g"
    and "DrawOnAttack_unapply self (DrawOnAttack_apply self g) = g"
  using assms
  by (simp_all add: DrawOnMinion_unapply_def DrawOnMinion_apply_def GrowIfSecret_unapply_def
      GrowIfSecret_apply_def AddCardOnSpell_unapply_def AddCardOnSpell_apply_def
      FreezeOnDamage_unapply_def FreezeOnDamage_apply_def KillOnDamage_unapply_def
      KillOnDamage_apply_def DrawOnAttack_unapply_def DrawOnAttack_apply_def
      target_player_def minion_player_bind player_unbind_bind minion_unbind_bind
      not_applied_player not_applied_minion)

lemma immune_same: "\<not> immune s \<Longrightarrow> s\<lparr>immune := False\<rparr> = s"
  by (cases s) simp

lemma update_minion_player_commute:
  "update_minion m f (update_player p h g) = update_player p h (update_minion m f g)"
  by (simp add: update_minion_def update_player_def)

lemma Immune_undone:
  assumes "not_applied self g" and "\<not> immune (minion g (target self))"
  shows "Immune_unapply self (Immune_apply self g) = g"
proof -
  have cp: "\<And>b s. current_player (set_immune (target self) b s) = current_player s"
    by (simp add: set_immune_def update_minion_def)
  have ev: "\<And>b. player_events (game_players (set_immune (target self) b g) (current_player g))
                 = player_events (game_players g (current_player g))"
    by (simp add: set_immune_def update_minion_def)
  have "set_immune (target self) False (set_immune (target self) True g) = g"
    using assms(2)
    by (simp add: set_immune_def update_minion_twice comp_def update_minion_same immune_same)
  moreover have "\<And>s p e f. set_immune (target self) False (player_bind p e f s)
                    = player_bind p e f (set_immune (target self) False s)"
    by (simp add: set_immune_def player_bind_def update_minion_player_commute)
  ultimately show ?thesis
    using not_applied_player[OF assms(1), of "''remove_immunity''" "current_player g" "''turn_ended''"]
    by (simp add: Immune_unapply_def Immune_apply_def Let_def remove_immunity_def cp
        player_unbind_bind current_player_player_bind)
qed

lemma Buff_undone:
  assumes "not_applied self g" and "players self = ''friendly'' \<or> players self = ''enemy'' \<or> players self = ''both''"
  shows "and_then (Buff_apply self g) (Buff_unapply self) = Inr g"
proof -
  have tp: "target_player self (bind_all ps e f g) = target_player self g" for ps e f
  proof -
    have "\<And>s. minion (foldl (\<lambda>s p. player_bind p e f s) s ps) = minion s"
      by (induction ps) (simp_all add: minion_player_bind)
    then show ?thesis
      by (simp add: target_player_def bind_all_def)
  qed
  define ps where "ps = (if players self = ''friendly'' then [target_player self g]
        else if players self = ''enemy'' then [opponent (target_player self g)]
        else [target_player self g, opponent (target_player self g)])"
  have ps: "Buff_players self g = Inr ps"
    using assms(2) by (auto simp: Buff_players_def ps_def)
  have shape: "ps = [target_player self g] \<or> ps = [opponent (target_player self g)] \<or>
                ps = [target_player self g, opponent (target_player self g)]"
    by (simp add: ps_def)
  have "Buff_players self (bind_all qs e f g) = Buff_players self g" for qs e f
    by (simp add: Buff_players_def tp)
  then have ps': "Buff_players self (bind_all qs e f g) = Inr ps" for qs e f
    by (simp add: ps)
  have undo: "unbind_all ps e (Bound self n) (bind_all ps e (Bound self n) g) = g" for e n
    using shape not_applied_player[OF assms(1)]
    by (auto simp: unbind_all_def bind_all_def player_unbind_bind player_unbind_bind_commute
        opponent_neq)
  show ?thesis
    by (simp add: and_then_def Buff_apply_def Buff_unapply_def ps ps' undo)
qed

lemma append_filter_commute:
  "p \<noteq> q \<Longrightarrow> append_filter p f (append_filter q f' g) = append_filter q f' (append_filter p f g)"
  by (simp add: append_filter_def update_player_commute)

lemma remove_filter_append_other:
  "p \<noteq> q \<Longrightarrow>
   remove_filter p (Some f) (append_filter q f' g)
     = and_then (remove_filter p (Some f) g) (\<lambda>s. Inr (append_filter q f' s))"
  by (simp add: remove_filter_def append_filter_def game_players_update_player and_then_def
      update_player_commute split: sum.splits)

lemma filter_object_frame:
  "append_filter p f (g\<lparr>filter_object := x\<rparr>) = (append_filter p f g)\<lparr>filter_object := x\<rparr>"
  "filter_object (append_filter p f g) = filter_object g"
  "minion (g\<lparr>filter_object := x\<rparr>) = minion g"
  "game_players (g\<lparr>filter_object := x\<rparr>) = game_players g"
  "current_player (g\<lparr>filter_object := x\<rparr>) = current_player g"
  "current_player (append_filter p f g) = current_player g"
  by (simp_all add: append_filter_def update_player_def)

lemma remove_filter_frame:
  "remove_filter p fo (g\<lparr>filter_object := x\<rparr>)
     = and_then (remove_filter p fo g) (\<lambda>s. Inr (s\<lparr>filter_object := x\<rparr>))"
  by (simp add: remove_filter_def and_then_def update_player_def split: option.splits sum.splits)

lemma ManaFilter_undone:
  assumes "not_applied (ManaFilter i t a ft mi pl) g"
  shows "\<exists>g'. and_then (Inr (ManaFilter_apply (ManaFilter i t a ft mi pl) g))
                 (ManaFilter_unapply (ManaFilter i t a ft mi pl)) = Inr g'
              \<and> g'\<lparr>filter_object := filter_object g\<rparr> = g"
proof -
  let ?f = "\<lparr>created_by = i, amount' = a, min' = mi, filter' = my_filter ft\<rparr>"
  have fresh: "\<And>q. ?f \<notin> set (mana_filters (game_players g q))"
    using not_applied_filter[OF assms, of ?f] by simp
  show ?thesis
    using fresh
    by (simp add: and_then_def ManaFilter_apply_def ManaFilter_unapply_def Let_def
        target_player_def filter_object_frame minion_append_filter remove_filter_frame
        remove_filter_append_other remove_append_filter opponent_neq)
qed

lemma IncreaseBattlecryMinionCost_undone:
  assumes "not_applied (IncreaseBattlecryMinionCost i t a) g"
  shows "\<exists>g'. and_then (Inr (IncreaseBattlecryMinionCost_apply (IncreaseBattlecryMinionCost i t a) g))
                 (IncreaseBattlecryMinionCost_unapply (IncreaseBattlecryMinionCost i t a)) = Inr g'
              \<and> g'\<lparr>filter_object := filter_object g\<rparr> = g"
proof -
  let ?f = "\<lparr>created_by = i, amount' = - a, min' = 0, filter' = Battlecry_minion_filter\<rparr>"
  have fresh: "\<And>q. ?f \<notin> set (mana_filters (game_players g q))"
    using not_applied_filter[OF assms, of ?f] by simp
  show ?thesis
    using fresh
    by (simp add: and_then_def IncreaseBattlecryMinionCost_apply_def
        IncreaseBattlecryMinionCost_unapply_def Let_def other_player_def opponent_neq
        filter_object_frame remove_filter_frame remove_filter_append_other remove_append_filter)
qed

lemma run_two_steps: "run_steps [f, h] g = and_then (f g) h"
  by (cases "f g") (simp_all add: and_then_def split: sum.splits)

lemma ChargeAura_unapply_frame:
  "minion (ChargeAura_unapply aura s) = minion s
   \<and> affected_minions (ChargeAura_unapply aura s) = affected_minions s
   \<and> charged_minions (ChargeAura_unapply aura s) = charged_minions s"
  by (simp add: ChargeAura_unapply_def Let_def player_unbind_def update_player_def)

lemma unapply_effect_eta:
  "unapply_effect (IncreaseBattlecryMinionCost i t a)
     = IncreaseBattlecryMinionCost_unapply (IncreaseBattlecryMinionCost i t a)"
  "unapply_effect (ManaFilter i t a ft mi pl) = ManaFilter_unapply (ManaFilter i t a ft mi pl)"
  "unapply_effect (Buff i t w mf bt a h ps) = Buff_unapply (Buff i t w mf bt a h ps)"
  by (simp_all add: fun_eq_iff)

lemma ChargeAura_unapply_only_unbinds:
  "ChargeAura_unapply E u =
     u\<lparr>game_players := (\<lambda>q.
          if (q = target_player E u \<and> (players E = ''friendly'' \<or> players E = ''both''))
             \<or> (q = opponent (target_player E u) \<and> (players E = ''enemy'' \<or> players E = ''both''))
          then (game_players u q)\<lparr>player_events :=
                 unbind ''minion_played'' (Bound E ''give_charge_if_beast'')
                   (player_events (game_players u q))\<rparr>
          else game_players u q)\<rparr>"
  by (cases "target_player E u")
     (auto simp: ChargeAura_unapply_def Let_def player_unbind_def update_player_def
      target_player_def fun_eq_iff opponent_neq)

text \<open>
  The count-gated effects through the registry. \<^verbatim>\<open>HealAsDamage\<close>: when the count was 0 the
  flag is set and then cleared, otherwise nothing but the count changes, and the count is
  back where it was. Without the condition on the flag, a flag that is on while nothing
  is counted is cleared.
\<close>

lemma HealAsDamage_registry_undone:
  assumes "effect_count (game_players g (player (minion g t))) ''HealAsDamage'' \<noteq> 0
           \<or> \<not> heal_does_damage (game_players g (player (minion g t)))"
  shows "run_steps [add_effect A (HealAsDamage i t), remove_effect (HealAsDamage i t)] g = Inr g"
  using assms
  by (auto simp: run_two_steps add_HealAsDamage remove_HealAsDamage and_then_def Let_def
      change_effect_count_def update_player_def target_player_def fun_eq_iff
      simp del: run_steps.simps)

lemma HealAsDamage_registry_clears:
  assumes "effect_count (game_players g (player (minion g t))) ''HealAsDamage'' = 0"
  shows "\<not> isl (run_steps [add_effect A (HealAsDamage i t), remove_effect (HealAsDamage i t)] g)"
    and "\<not> heal_does_damage (game_players
           (projr (run_steps [add_effect A (HealAsDamage i t), remove_effect (HealAsDamage i t)] g))
           (player (minion g t)))"
  using assms
  by (simp_all add: run_two_steps add_HealAsDamage remove_HealAsDamage and_then_def Let_def
      change_effect_count_def update_player_def target_player_def
      del: run_steps.simps)

lemma DoubleDeathrattle_registry_undone:
  assumes "not_applied (DoubleDeathrattle i t) g"
  shows "run_steps [add_effect A (DoubleDeathrattle i t), remove_effect (DoubleDeathrattle i t)] g
           = Inr g"
proof -
  let ?p = "player (minion g t)"
  let ?f = "Bound (DoubleDeathrattle i t) ''trigger_deathrattle''"
  have fresh: "?f \<notin> fst ` set (player_events (game_players g ?p) ''minion_died'')"
    using not_applied_player[OF assms] .
  then have "remove_first ?f (player_events (game_players g ?p) ''minion_died'' @ [(?f, False)])
               = player_events (game_players g ?p) ''minion_died''"
    by (rule remove_first_append_fresh)
  then show ?thesis
    by (auto simp: run_two_steps add_DoubleDeathrattle remove_DoubleDeathrattle and_then_def
        Let_def change_effect_count_def update_player_def target_player_def fun_eq_iff
        player_bind_def player_unbind_def bind_def unbind_def
        simp del: run_steps.simps)
qed

text \<open>
  C4, as the code has it. For \<^verbatim>\<open>KillMinion\<close>, \<^verbatim>\<open>Immune\<close> (on a target that is not immune
  yet), \<^verbatim>\<open>ManaFilter\<close>, \<^verbatim>\<open>Buff\<close> (with a recognized \<^verbatim>\<open>players\<close>), \<^verbatim>\<open>FreezeOnDamage\<close>,
  \<^verbatim>\<open>DrawOnMinion\<close>, \<^verbatim>\<open>GrowIfSecret\<close>, \<^verbatim>\<open>AddCardOnSpell\<close>, \<^verbatim>\<open>KillOnDamage\<close>,
  \<^verbatim>\<open>DrawOnAttack\<close>, \<^verbatim>\<open>IncreaseBattlecryMinionCost\<close> and
  \<^verbatim>\<open>ResurrectFriendlyMinionsAtEndOfTurn\<close>, on an effect that is not applied yet,
  \<^verbatim>\<open>apply\<close> followed by \<^verbatim>\<open>unapply\<close> raises nothing and gives back the game as it was:
  listener lists, mana-filter lists and flags (only the effect's own \<^verbatim>\<open>filter_object\<close>
  field remembers the filter it made). So do \<^verbatim>\<open>DoubleDeathrattle\<close> and \<^verbatim>\<open>HealAsDamage\<close>
  (with the flag off while no instance is counted) when the registry increments the count
  before \<^verbatim>\<open>apply\<close> and decrements it before \<^verbatim>\<open>unapply\<close>. \<^verbatim>\<open>ChargeAura.unapply\<close> unbinds
  \<^verbatim>\<open>give_charge_if_beast\<close> from \<^verbatim>\<open>minion_played\<close> of the players that the selector names
  and changes nothing else: no minion and neither of the aura's lists, so the charge
  flags and the \<^verbatim>\<open>silenced\<close> and \<^verbatim>\<open>copied\<close> listeners that \<^verbatim>\<open>apply\<close> put on minions stay.
\<close>

theorem apply_unapply_takes_back:
  assumes "takes_back self g" and "not_applied self g"
  shows "\<not> isl (run_steps (if count_gated self then [add_effect A self, remove_effect self]
                           else [apply_effect A self, unapply_effect self]) g)
    \<and> (projr (run_steps (if count_gated self then [add_effect A self, remove_effect self]
                          else [apply_effect A self, unapply_effect self]) g))
         \<lparr>filter_object := filter_object g\<rparr> = g
    \<and> ChargeAura_unapply aura s =
        s\<lparr>game_players := (\<lambda>q.
             if (q = target_player aura s
                   \<and> (players aura = ''friendly'' \<or> players aura = ''both''))
                \<or> (q = opponent (target_player aura s)
                      \<and> (players aura = ''enemy'' \<or> players aura = ''both''))
             then (game_players s q)\<lparr>player_events :=
                    unbind ''minion_played'' (Bound aura ''give_charge_if_beast'')
                      (player_events (game_players s q))\<rparr>
             else game_players s q)\<rparr>
    \<and> minion (ChargeAura_unapply aura s) = minion s
    \<and> affected_minions (ChargeAura_unapply aura s) = affected_minions s
    \<and> charged_minions (ChargeAura_unapply aura s) = charged_minions s"
proof -
  let ?steps = "if count_gated self then [add_effect A self, remove_effect self]
                else [apply_effect A self, unapply_effect self]"
  have "\<exists>g'. run_steps ?steps g = Inr g' \<and> g'\<lparr>filter_object := filter_object g\<rparr> = g"
  proof (cases self)
    case (KillMinion i t w)
    then show ?thesis using assms KillMinion_undone[of self g]
      by (simp add: run_two_steps and_then_def del: run_steps.simps)
  next
    case (Immune i t)
    then show ?thesis using assms Immune_undone[of self g]
      by (simp add: run_two_steps and_then_def del: run_steps.simps)
  next
    case (DrawOnMinion i t ty)
    then show ?thesis using assms one_bound_method_undone(1)[of self g]
      by (simp add: run_two_steps and_then_def del: run_steps.simps)
  next
    case (IncreaseBattlecryMinionCost i t a)
    then show ?thesis using assms IncreaseBattlecryMinionCost_undone[of i t a g]
      by (simp add: run_two_steps unapply_effect_eta del: run_steps.simps)
  next
    case (DoubleDeathrattle i t)
    then show ?thesis using assms DoubleDeathrattle_registry_undone[of i t g A] by simp
  next
    case (HealAsDamage i t)
    then show ?thesis using assms HealAsDamage_registry_undone[of g t A i] by simp
  next
    case (ManaFilter i t a ft mi pl)
    then show ?thesis using assms ManaFilter_undone[of i t a ft mi pl g]
      by (simp add: run_two_steps unapply_effect_eta del: run_steps.simps)
  next
    case (GrowIfSecret i t a h)
    then show ?thesis using assms one_bound_method_undone(2)[of self g]
      by (simp add: run_two_steps and_then_def del: run_steps.simps)
  next
    case (AddCardOnSpell i t c)
    then show ?thesis using assms one_bound_method_undone(3)[of self g]
      by (simp add: run_two_steps and_then_def del: run_steps.simps)
  next
    case (FreezeOnDamage i t)
    then show ?thesis using assms one_bound_method_undone(4)[of self g]
      by (simp add: run_two_steps and_then_def del: run_steps.simps)
  next
    case (KillOnDamage i t)
    then show ?thesis using assms one_bound_method_undone(5)[of self g]
      by (simp add: run_two_steps and_then_def del: run_steps.simps)
  next
    case (DrawOnAttack i t a fp)
    then show ?thesis using assms one_bound_method_undone(6)[of self g]
      by (simp add: run_two_steps and_then_def del: run_steps.simps)
  next
    case (Buff i t w mf bt a h ps)
    then show ?thesis using assms Buff_undone[of self g]
      by (simp add: run_two_steps unapply_effect_eta del: run_steps.simps)
  next
    case (ResurrectFriendlyMinionsAtEndOfTurn i t)
    then show ?thesis using assms Resurrect_undone[of i t g]
      by (simp add: run_two_steps and_then_def del: run_steps.simps)
  qed (use assms in simp_all)
  then obtain g' where "run_steps ?steps g = Inr g'" and "g'\<lparr>filter_object := filter_object g\<rparr> = g"
    by blast
  then show ?thesis
    using ChargeAura_unapply_only_unbinds[of aura s] ChargeAura_unapply_frame[of aura s]
    by simp
qed

theorem apply_unapply_takes_back_witness:
  "takes_back (ManaFilter 1 0 (- 1) ''minion'' 0 ''both'') two_minions
   \<and> not_applied (ManaFilter 1 0 (- 1) ''minion'' 0 ''both'') two_minions
   \<and> \<not> isl (run_steps [apply_effect (- 1) (ManaFilter 1 0 (- 1) ''minion'' 0 ''both''),
                        unapply_effect (ManaFilter 1 0 (- 1) ''minion'' 0 ''both'')] two_minions)
   \<and> (projr (run_steps [apply_effect (- 1) (ManaFilter 1 0 (- 1) ''minion'' 0 ''both''),
                        unapply_effect (ManaFilter 1 0 (- 1) ''minion'' 0 ''both'')] two_minions))
        \<lparr>filter_object := filter_object two_minions\<rparr> = two_minions
   \<and> takes_back (HealAsDamage 2 0) two_minions
   \<and> not_applied (HealAsDamage 2 0) two_minions
   \<and> \<not> isl (run_steps [add_effect (- 1) (HealAsDamage 2 0), remove_effect (HealAsDamage 2 0)]
                two_minions)
   \<and> (projr (run_steps [add_effect (- 1) (HealAsDamage 2 0), remove_effect (HealAsDamage 2 0)]
                two_minions))
        \<lparr>filter_object := filter_object two_minions\<rparr> = two_minions"
proof -
  have a: "takes_back (ManaFilter 1 0 (- 1) ''minion'' 0 ''both'') two_minions" by simp
  have b: "not_applied (ManaFilter 1 0 (- 1) ''minion'' 0 ''both'') two_minions"
    by (simp add: not_applied_def two_minions_def empty_player_def new_minion_def)
  have c: "takes_back (HealAsDamage 2 0) two_minions"
    by (simp add: two_minions_def empty_player_def new_minion_def)
  have d: "not_applied (HealAsDamage 2 0) two_minions"
    by (simp add: not_applied_def two_minions_def empty_player_def new_minion_def)
  show ?thesis
    using apply_unapply_takes_back[OF a b, of "- 1"] apply_unapply_takes_back[OF c d, of "- 1"]
      a b c d
    by simp
qed

text \<open>
  C4 as stated fails for \<^verbatim>\<open>ChargeAura\<close>: on the board \<open>two_minions\<close>, a friendly aura on
  minion 0 gives minion 1 charge and a \<^verbatim>\<open>silenced\<close> listener; after \<^verbatim>\<open>unapply\<close> minion 1
  still has both. It also fails for \<^verbatim>\<open>Immune\<close> on a minion that is immune already:
  after \<^verbatim>\<open>apply\<close> and \<^verbatim>\<open>unapply\<close> the minion is not immune any more.
\<close>

theorem ChargeAura_unapply_leaves_charge:
  "\<not> charge (minion two_minions 1)
   \<and> minion_events (minion two_minions 1) ''silenced'' = []
   \<and> \<not> isl (run_steps [apply_effect (- 1) (ChargeAura 1 0 ''friendly'' (- 1)),
                        unapply_effect (ChargeAura 1 0 ''friendly'' (- 1))] two_minions)
   \<and> charge (minion (projr (run_steps [apply_effect (- 1) (ChargeAura 1 0 ''friendly'' (- 1)),
                        unapply_effect (ChargeAura 1 0 ''friendly'' (- 1))] two_minions)) 1)
   \<and> minion_events (minion (projr (run_steps [apply_effect (- 1) (ChargeAura 1 0 ''friendly'' (- 1)),
                        unapply_effect (ChargeAura 1 0 ''friendly'' (- 1))] two_minions)) 1)
        ''silenced'' = [(Permacharge_silenced (ChargeAura 1 0 ''friendly'' (- 1)) 1, False)]
   \<and> immune (minion (set_immune 1 True two_minions) 1)
   \<and> \<not> isl (run_steps [apply_effect (- 1) (Immune 1 1), unapply_effect (Immune 1 1)]
                (set_immune 1 True two_minions))
   \<and> \<not> immune (minion (projr (run_steps [apply_effect (- 1) (Immune 1 1),
                                           unapply_effect (Immune 1 1)]
                                  (set_immune 1 True two_minions))) 1)"
  by (simp add: and_then_def ChargeAura_apply_def ChargeAura_unapply_def Let_def
      give_charge_if_beast_def give_permacharge_effect_def watch_for_silence_def
      target_player_def set_charge_def minion_bind_def minion_bind_once_def
      update_minion_def update_player_def player_bind_def player_unbind_def bind_def
      bind_once_def unbind_def two_minions_def empty_player_def new_minion_def vanilla_def
      Immune_apply_def Immune_unapply_def remove_immunity_def set_immune_def)

subsection \<open>Selectors outside the recognized values\<close>

text \<open>
  C5, as the code has it. Only \<^verbatim>\<open>Buff\<close> checks its \<^verbatim>\<open>players\<close> selector: \<^verbatim>\<open>Buff.apply\<close>
  and \<^verbatim>\<open>Buff.unapply\<close> raise \<^verbatim>\<open>RuntimeError\<close> for a value other than \<^verbatim>\<open>"friendly"\<close>,
  \<^verbatim>\<open>"enemy"\<close> and \<^verbatim>\<open>"both"\<close>. An unrecognized \<^verbatim>\<open>target\<close> of a \<^verbatim>\<open>Buff\<close> passes \<^verbatim>\<open>apply\<close>
  and raises \<^verbatim>\<open>RuntimeError\<close> when the action runs. With an unrecognized \<^verbatim>\<open>players\<close>,
  \<^verbatim>\<open>StatsAura.apply\<close> does what it does for \<^verbatim>\<open>"both"\<close>, \<^verbatim>\<open>ChargeAura.apply\<close> leaves the
  game as it is, and \<^verbatim>\<open>ManaFilter.apply\<close> creates its filter object and appends it to
  no list; none of the three raises.
\<close>

theorem selector_validation:
  assumes "ps \<noteq> ''friendly''" and "ps \<noteq> ''enemy''" and "ps \<noteq> ''both''"
    and "bt \<noteq> ''self''" and "bt \<noteq> ''random''" and "bt \<noteq> ''random_friendly''"
    and "bt \<noteq> ''random_enemy''"
  shows "apply_effect A (Buff i t w mf bt' a h ps) g = Inl RuntimeError
    \<and> unapply_effect (Buff i t w mf bt' a h ps) g = Inl RuntimeError
    \<and> \<not> isl (apply_effect A (Buff i t w mf bt a h ''friendly'') g)
    \<and> Buff_do_action X (Buff i t w mf bt a h ps') g = Inl RuntimeError
    \<and> apply_effect A (StatsAura i t a h ps ty) g = apply_effect A (StatsAura i t a h ''both'' ty) g
    \<and> \<not> isl (apply_effect A (StatsAura i t a h ps ty) g)
    \<and> apply_effect A (ChargeAura i t ps ty) g = Inr g
    \<and> apply_effect A (ManaFilter i t a ft mi ps) g
        = Inr (g\<lparr>filter_object :=
                   (filter_object g)(i := Some \<lparr>created_by = i, amount' = a, min' = mi,
                                                filter' = my_filter ft\<rparr>)\<rparr>)"
  using assms
  by (simp add: Buff_apply_def Buff_unapply_def Buff_players_def and_then_def Buff_do_action_def
      Buff_targets_def StatsAura_apply_def ChargeAura_apply_def ManaFilter_apply_def Let_def
      target_player_def)

theorem selector_validation_witness:
  "apply_effect (- 1) (Buff 1 0 ''death'' ''minion'' ''self'' 1 1 ''everyone'') two_minions
     = Inl RuntimeError
   \<and> Buff_do_action idle (Buff 1 0 ''death'' ''minion'' ''anyone'' 1 1 ''friendly'') two_minions
     = Inl RuntimeError
   \<and> apply_effect (- 1) (ChargeAura 1 0 ''everyone'' (- 1)) two_minions = Inr two_minions"
  using selector_validation[where ps = "''everyone''" and bt = "''anyone''" and A = "- 1"
      and i = 1 and t = 0 and w = "''death''" and mf = "''minion''" and bt' = "''self''"
      and a = 1 and h = 1 and g = two_minions and X = idle and ps' = "''friendly''"
      and ty = "- 1" and ft = "''card''" and mi = 0]
  by simp

text \<open>
  C5 as stated fails: with the selector \<^verbatim>\<open>"everyone"\<close>, applying a \<^verbatim>\<open>ChargeAura\<close>, a
  \<^verbatim>\<open>StatsAura\<close> or a \<^verbatim>\<open>ManaFilter\<close> raises nothing, and neither does applying a \<^verbatim>\<open>Buff\<close>
  with the target \<^verbatim>\<open>"anyone"\<close>.
\<close>

theorem selector_not_validated:
  "apply_effect (- 1) (ChargeAura 1 0 ''everyone'' (- 1)) two_minions = Inr two_minions
   \<and> \<not> isl (apply_effect (- 1) (StatsAura 1 0 1 1 ''everyone'' (- 1)) two_minions)
   \<and> \<not> isl (apply_effect (- 1) (ManaFilter 1 0 1 ''card'' 0 ''everyone'') two_minions)
   \<and> \<not> isl (apply_effect (- 1) (Buff 1 0 ''death'' ''minion'' ''anyone'' 1 1 ''friendly'')
              two_minions)"
  by (simp add: ChargeAura_apply_def Buff_apply_def Buff_players_def and_then_def)

subsection \<open>ChargeAura and the silenced event\<close>

lemma minion_update_minion:
  "minion (update_minion m f g) n = (if n = m then f (minion g m) else minion g n)"
  by (simp add: update_minion_def)

lemma minion_events_minion_unbind:
  "minion_events (minion (minion_unbind m event f g) n) e =
     (if n = m \<and> e = event then remove_first f (minion_events (minion g m) event)
      else minion_events (minion g n) e)"
  by (simp add: minion_unbind_def minion_update_minion unbind_def)

lemma minion_events_discard_once:
  "minion_events (minion (discard_once m event h g) n) e =
     (if n = m \<and> e = event then remove1 h (minion_events (minion g m) event)
      else minion_events (minion g n) e)"
  by (simp add: discard_once_def minion_update_minion)

lemma minion_events_set_charge:
  "minion_events (minion (set_charge m b g) n) = minion_events (minion g n)"
  by (simp add: set_charge_def minion_update_minion)

lemma charge_set_charge:
  "charge (minion (set_charge m b g) n) = (if n = m then b else charge (minion g n))"
  by (simp add: set_charge_def minion_update_minion)

lemma charge_minion_unbind:
  "charge (minion (minion_unbind m event f g) n) = charge (minion g n)"
  by (simp add: minion_unbind_def minion_update_minion)

lemma charge_discard_once:
  "charge (minion (discard_once m event h g) n) = charge (minion g n)"
  by (simp add: discard_once_def minion_update_minion)

lemma lists_frame:
  "affected_minions (set_charge m b g) = affected_minions g"
  "charged_minions (set_charge m b g) = charged_minions g"
  "affected_minions (minion_unbind m e f g) = affected_minions g"
  "charged_minions (minion_unbind m e f g) = charged_minions g"
  "affected_minions (discard_once m e h g) = affected_minions g"
  "charged_minions (discard_once m e h g) = charged_minions g"
  by (simp_all add: set_charge_def minion_unbind_def discard_once_def update_minion_def)


lemma source_listener_cases:
  assumes "source_listener E h"
  obtains m where "h = (Watch_unbind E m, True)" "m \<noteq> target E"
  | m where "h = (Permacharge_target_silenced E m, True)" "m \<noteq> target E"
proof (cases h)
  case (Pair f once)
  with assms that show ?thesis by (cases f) simp_all
qed

text \<open>One round of the publish on the source: the call, then the removal of the entry.\<close>

lemma source_step:
  assumes "source_listener E h"
  shows "\<not> isl (call_callback X (fst h) s)
    \<and> minion_events (minion (discard_once (target E) ''silenced'' h
              (projr (call_callback X (fst h) s))) (target E)) ''silenced''
           = remove1 h (minion_events (minion s (target E)) ''silenced'')
    \<and> (\<not> charge (minion s n) \<longrightarrow>
           \<not> charge (minion (discard_once (target E) ''silenced'' h
              (projr (call_callback X (fst h) s))) n))
    \<and> (n \<noteq> target E \<longrightarrow> minion_events (minion s n) ''silenced'' = [] \<longrightarrow>
           minion_events (minion (discard_once (target E) ''silenced'' h
              (projr (call_callback X (fst h) s))) n) ''silenced'' = [])
    \<and> affected_minions (discard_once (target E) ''silenced'' h
              (projr (call_callback X (fst h) s))) = affected_minions s
    \<and> charged_minions (discard_once (target E) ''silenced'' h
              (projr (call_callback X (fst h) s))) = charged_minions s"
  using assms
  by (rule source_listener_cases)
    (simp_all add: watch_unbind_def target_silenced_def Let_def minion_events_discard_once
        minion_events_minion_unbind charge_set_charge minion_events_set_charge
        charge_minion_unbind charge_discard_once lists_frame)


lemma source_listener_once: "source_listener E h \<Longrightarrow> snd h"
  by (erule source_listener_cases) simp_all

lemma source_silenced_invariant:
  assumes "list_all (source_listener E) hs"
    and "minion_events (minion g (target E)) ''silenced'' = hs"
    and "P g"
    and step: "\<And>h s. source_listener E h \<Longrightarrow> P s \<Longrightarrow>
             P (discard_once (target E) ''silenced'' h (projr (call_callback X (fst h) s)))"
  shows "\<not> isl (run_handlers X (discard_once (target E) ''silenced'') hs g)
    \<and> P (projr (run_handlers X (discard_once (target E) ''silenced'') hs g))
    \<and> minion_events
         (minion (projr (run_handlers X (discard_once (target E) ''silenced'') hs g)) (target E))
         ''silenced'' = []"
  using assms(1-3)
proof (induction hs arbitrary: g)
  case Nil
  then show ?case by simp
next
  case (Cons h hs)
  from Cons.prems(1) have h: "source_listener E h" and hs: "list_all (source_listener E) hs"
    by simp_all
  from source_step[OF h, of X g] obtain g1 where g1: "call_callback X (fst h) g = Inr g1"
    by (cases "call_callback X (fst h) g") auto
  let ?g2 = "discard_once (target E) ''silenced'' h g1"
  from source_step[OF h, of X g] g1
  have ev: "minion_events (minion ?g2 (target E)) ''silenced''
               = remove1 h (minion_events (minion g (target E)) ''silenced'')"
    by simp
  have ev2: "minion_events (minion ?g2 (target E)) ''silenced'' = hs"
    using ev Cons.prems(2) by simp
  have P2: "P ?g2" using step[OF h Cons.prems(3)] g1 by simp
  have "run_handlers X (discard_once (target E) ''silenced'') (h # hs) g
          = run_handlers X (discard_once (target E) ''silenced'') hs ?g2"
    using g1 source_listener_once[OF h] by (simp add: and_then_def)
  with Cons.IH[OF hs ev2 P2] show ?case by simp
qed


lemma source_step_minion:
  assumes "source_listener E h" and "n \<noteq> target E"
  shows "minion_events (minion (discard_once (target E) ''silenced'' h
              (projr (call_callback X (fst h) s))) n) ''silenced''
          = (if h = (Watch_unbind E n, True)
             then remove_first (Watch_silenced E n) (minion_events (minion s n) ''silenced'')
             else if h = (Permacharge_target_silenced E n, True)
             then remove_first (Permacharge_silenced E n) (minion_events (minion s n) ''silenced'')
             else minion_events (minion s n) ''silenced'')
    \<and> charge (minion (discard_once (target E) ''silenced'' h
              (projr (call_callback X (fst h) s))) n)
          = (if h = (Permacharge_target_silenced E n, True) then False else charge (minion s n))"
  using assms
  by (elim source_listener_cases)
    (auto simp: watch_unbind_def target_silenced_def Let_def minion_events_discard_once
        minion_events_minion_unbind charge_set_charge minion_events_set_charge
        charge_minion_unbind charge_discard_once)

lemma in_remove1_other: "x \<in> set xs \<Longrightarrow> x \<noteq> h \<Longrightarrow> x \<in> set (remove1 h xs)"
  by (induction xs) auto

lemma source_silenced:
  assumes "list_all (source_listener E) (minion_events (minion g (target E)) ''silenced'')"
    and "m \<noteq> target E"
  shows "\<not> isl (minion_trigger X (target E) ''silenced'' g)"
    and "minion_events (minion (projr (minion_trigger X (target E) ''silenced'' g)) (target E))
           ''silenced'' = []"
    and "affected_minions (projr (minion_trigger X (target E) ''silenced'' g)) = affected_minions g"
    and "charged_minions (projr (minion_trigger X (target E) ''silenced'' g)) = charged_minions g"
    and "(Permacharge_target_silenced E m, True)
           \<in> set (minion_events (minion g (target E)) ''silenced'') \<Longrightarrow>
         \<not> charge (minion (projr (minion_trigger X (target E) ''silenced'' g)) m)"
    and "(Watch_unbind E m, True) \<in> set (minion_events (minion g (target E)) ''silenced'') \<Longrightarrow>
         minion_events (minion g m) ''silenced'' = [(Watch_silenced E m, True)] \<Longrightarrow>
         minion_events (minion (projr (minion_trigger X (target E) ''silenced'' g)) m) ''silenced''
           = []"
    and "(Permacharge_target_silenced E m, True)
           \<in> set (minion_events (minion g (target E)) ''silenced'') \<Longrightarrow>
         minion_events (minion g m) ''silenced'' = [(Permacharge_silenced E m, False)] \<Longrightarrow>
         minion_events (minion (projr (minion_trigger X (target E) ''silenced'' g)) m) ''silenced''
           = []"
proof -
  let ?t = "target E"
  let ?hs = "minion_events (minion g ?t) ''silenced''"
  let ?L = "\<lambda>s. minion_events (minion s ?t) ''silenced''"
  let ?ev = "\<lambda>s. minion_events (minion s m) ''silenced''"
  let ?R = "projr (minion_trigger X ?t ''silenced'' g)"
  note inv = source_silenced_invariant[OF assms(1) refl, of _ X, unfolded minion_trigger_def[symmetric]]
  show "\<not> isl (minion_trigger X ?t ''silenced'' g)" and "?L ?R = []"
    using inv[of "\<lambda>s. True"] by simp_all
  show "affected_minions ?R = affected_minions g"
    using inv[of "\<lambda>s. affected_minions s = affected_minions g"] source_step by simp
  show "charged_minions ?R = charged_minions g"
    using inv[of "\<lambda>s. charged_minions s = charged_minions g"] source_step by simp
  let ?TS = "(Permacharge_target_silenced E m, True)"
  let ?WU = "(Watch_unbind E m, True)"
  { assume a: "?TS \<in> set ?hs"
    have "\<And>h s. source_listener E h \<Longrightarrow> ?TS \<in> set (?L s) \<or> \<not> charge (minion s m) \<Longrightarrow>
        ?TS \<in> set (?L (discard_once ?t ''silenced'' h (projr (call_callback X (fst h) s))))
        \<or> \<not> charge (minion (discard_once ?t ''silenced'' h (projr (call_callback X (fst h) s))) m)"
      using source_step[of E _ X _ m] source_step_minion[OF _ assms(2), of _ X]
      by (auto simp: in_remove1_other)
    from inv[of "\<lambda>s. ?TS \<in> set (?L s) \<or> \<not> charge (minion s m)", OF _ this] a
    show "\<not> charge (minion ?R m)" by auto
  }
  { assume a: "?WU \<in> set ?hs" and b: "?ev g = [(Watch_silenced E m, True)]"
    have "\<And>h s. source_listener E h \<Longrightarrow>
        ?ev s = [] \<or> (?ev s = [(Watch_silenced E m, True)] \<and> ?WU \<in> set (?L s)) \<Longrightarrow>
        ?ev (discard_once ?t ''silenced'' h (projr (call_callback X (fst h) s))) = [] \<or>
        (?ev (discard_once ?t ''silenced'' h (projr (call_callback X (fst h) s)))
           = [(Watch_silenced E m, True)] \<and>
         ?WU \<in> set (?L (discard_once ?t ''silenced'' h (projr (call_callback X (fst h) s)))))"
      using source_step[of E _ X _ m] source_step_minion[OF _ assms(2), of _ X]
      by (auto simp: in_remove1_other)
    from inv[of "\<lambda>s. ?ev s = [] \<or> (?ev s = [(Watch_silenced E m, True)] \<and> ?WU \<in> set (?L s))",
        OF _ this] a b
    show "?ev ?R = []" by auto
  }
  { assume a: "?TS \<in> set ?hs" and b: "?ev g = [(Permacharge_silenced E m, False)]"
    have "\<And>h s. source_listener E h \<Longrightarrow>
        ?ev s = [] \<or> (?ev s = [(Permacharge_silenced E m, False)] \<and> ?TS \<in> set (?L s)) \<Longrightarrow>
        ?ev (discard_once ?t ''silenced'' h (projr (call_callback X (fst h) s))) = [] \<or>
        (?ev (discard_once ?t ''silenced'' h (projr (call_callback X (fst h) s)))
           = [(Permacharge_silenced E m, False)] \<and>
         ?TS \<in> set (?L (discard_once ?t ''silenced'' h (projr (call_callback X (fst h) s)))))"
      using source_step[of E _ X _ m] source_step_minion[OF _ assms(2), of _ X]
      by (auto simp: in_remove1_other)
    from inv[of "\<lambda>s. ?ev s = [] \<or> (?ev s = [(Permacharge_silenced E m, False)] \<and> ?TS \<in> set (?L s))",
        OF _ this] a b
    show "?ev ?R = []" by auto
  }
qed


lemma migration:
  assumes "minion_events (minion g m) ''silenced'' = [(Watch_silenced E m, True)]"
    and "m \<in> set (charged_minions g (ident E))"
    and "m \<noteq> target E"
  shows "\<not> isl (minion_trigger X m ''silenced'' g)"
    and "affected_minions (projr (minion_trigger X m ''silenced'' g)) (ident E)
           = affected_minions g (ident E) @ [m]"
    and "charged_minions (projr (minion_trigger X m ''silenced'' g)) (ident E)
           = remove1 m (charged_minions g (ident E))"
    and "minion_events (minion (projr (minion_trigger X m ''silenced'' g)) m) ''silenced''
           = [(Permacharge_silenced E m, False)]"
    and "charge (minion (projr (minion_trigger X m ''silenced'' g)) m)"
    and "minion_events (minion (projr (minion_trigger X m ''silenced'' g)) (target E)) ''silenced''
           = minion_events (minion g (target E)) ''silenced''
             @ [(Permacharge_target_silenced E m, True)]"
  using assms
  by (simp_all add: minion_trigger_def and_then_def watch_silenced_def list_remove_def
      give_permacharge_effect_def Let_def discard_once_def minion_bind_def minion_bind_once_def
      set_charge_def minion_update_minion update_minion_def bind_def bind_once_def)

lemmas aura_eval = ChargeAura_apply_def ChargeAura_unapply_def Let_def
  give_charge_if_beast_def give_permacharge_effect_def watch_for_silence_def
  target_player_def set_charge_def minion_bind_def minion_bind_once_def minion_unbind_def
  update_minion_def update_player_def player_bind_def player_unbind_def bind_def
  bind_once_def unbind_def three_minions_def two_minions_def empty_player_def new_minion_def
  vanilla_def minion_trigger_def discard_once_def and_then_def watch_silenced_def
  watch_unbind_def target_silenced_def permacharge_silenced_def list_remove_def

text \<open>
  C6 as stated fails. On the board \<open>three_minions\<close> a friendly aura on minion 0 gives
  minion 1 charge and puts it in \<^verbatim>\<open>affected_minions\<close>; when the source is silenced (and
  then unapplied), minion 1 is still in that list and has lost its charge. And when the
  source is only unapplied, the watcher on minion 2 (which had charge) is still bound: a
  later \<^verbatim>\<open>silenced\<close> on minion 2 migrates it to \<^verbatim>\<open>affected_minions\<close>.
\<close>

theorem ChargeAura_silenced_source_revokes:
  "charge (minion (projr (apply_effect (- 1) (ChargeAura 1 0 ''friendly'' (- 1)) three_minions)) 1)
   \<and> \<not> isl (run_steps [apply_effect (- 1) (ChargeAura 1 0 ''friendly'' (- 1)),
                        minion_trigger idle 0 ''silenced'',
                        unapply_effect (ChargeAura 1 0 ''friendly'' (- 1))] three_minions)
   \<and> affected_minions
        (projr (run_steps [apply_effect (- 1) (ChargeAura 1 0 ''friendly'' (- 1)),
                           minion_trigger idle 0 ''silenced'',
                           unapply_effect (ChargeAura 1 0 ''friendly'' (- 1))] three_minions)) 1
      = [1]
   \<and> \<not> charge (minion
        (projr (run_steps [apply_effect (- 1) (ChargeAura 1 0 ''friendly'' (- 1)),
                           minion_trigger idle 0 ''silenced'',
                           unapply_effect (ChargeAura 1 0 ''friendly'' (- 1))] three_minions)) 1)
   \<and> \<not> isl (run_steps [apply_effect (- 1) (ChargeAura 1 0 ''friendly'' (- 1)),
                        unapply_effect (ChargeAura 1 0 ''friendly'' (- 1)),
                        minion_trigger idle 2 ''silenced''] three_minions)
   \<and> affected_minions
        (projr (run_steps [apply_effect (- 1) (ChargeAura 1 0 ''friendly'' (- 1)),
                           unapply_effect (ChargeAura 1 0 ''friendly'' (- 1)),
                           minion_trigger idle 2 ''silenced''] three_minions)) 1
      = [1, 2]"
  by (simp add: aura_eval)


text \<open>
  C6, as the code has it. A \<^verbatim>\<open>silenced\<close> event on a minion that the aura watches (it is
  in \<^verbatim>\<open>charged_minions\<close> and the watcher is its only \<^verbatim>\<open>silenced\<close> listener) moves it from
  \<^verbatim>\<open>charged_minions\<close> to \<^verbatim>\<open>affected_minions\<close>, removes the one-shot watcher and leaves the
  listeners of \<^verbatim>\<open>give_permacharge_effect\<close> in its place. A \<^verbatim>\<open>silenced\<close> event on the aura's
  target, whose \<^verbatim>\<open>silenced\<close> listeners are the aura's own one-shot closures, runs and
  removes them all: the watcher of a still watched minion is unbound, so that a later
  \<^verbatim>\<open>silenced\<close> on that minion changes nothing; a minion for which \<^verbatim>\<open>target_silenced\<close> was
  bound has its charge set to \<^verbatim>\<open>False\<close>; both lists of the aura stay as they are.
  After the migration the minion has charge. \<^verbatim>\<open>unapply\<close> on its own unbinds
  \<^verbatim>\<open>give_charge_if_beast\<close> from \<^verbatim>\<open>minion_played\<close> of the players that the selector
  names and changes nothing else, so no minion.
\<close>

theorem ChargeAura_silence:
  assumes "minion_events (minion g m) ''silenced'' = [(Watch_silenced E m, True)]"
    and "m \<in> set (charged_minions g (ident E))"
    and "m \<noteq> target E"
    and "list_all (source_listener E) (minion_events (minion s (target E)) ''silenced'')"
    and "(Watch_unbind E n, True) \<in> set (minion_events (minion s (target E)) ''silenced'')"
    and "minion_events (minion s n) ''silenced'' = [(Watch_silenced E n, True)]"
    and "n \<noteq> target E"
    and "(Permacharge_target_silenced E k, True)
           \<in> set (minion_events (minion s (target E)) ''silenced'')"
    and "k \<noteq> target E"
  shows "\<not> isl (minion_trigger X m ''silenced'' g)
    \<and> affected_minions (projr (minion_trigger X m ''silenced'' g)) (ident E)
        = affected_minions g (ident E) @ [m]
    \<and> charged_minions (projr (minion_trigger X m ''silenced'' g)) (ident E)
        = remove1 m (charged_minions g (ident E))
    \<and> minion_events (minion (projr (minion_trigger X m ''silenced'' g)) m) ''silenced''
        = [(Permacharge_silenced E m, False)]
    \<and> minion_events (minion (projr (minion_trigger X m ''silenced'' g)) (target E)) ''silenced''
        = minion_events (minion g (target E)) ''silenced''
          @ [(Permacharge_target_silenced E m, True)]
    \<and> \<not> isl (minion_trigger X (target E) ''silenced'' s)
    \<and> minion_events (minion (projr (minion_trigger X (target E) ''silenced'' s)) (target E))
         ''silenced'' = []
    \<and> minion_events (minion (projr (minion_trigger X (target E) ''silenced'' s)) n) ''silenced''
        = []
    \<and> minion_trigger X n ''silenced'' (projr (minion_trigger X (target E) ''silenced'' s))
        = Inr (projr (minion_trigger X (target E) ''silenced'' s))
    \<and> affected_minions (projr (minion_trigger X (target E) ''silenced'' s)) = affected_minions s
    \<and> charged_minions (projr (minion_trigger X (target E) ''silenced'' s)) = charged_minions s
    \<and> \<not> charge (minion (projr (minion_trigger X (target E) ''silenced'' s)) k)
    \<and> minion (ChargeAura_unapply E u) = minion u
    \<and> charge (minion (projr (minion_trigger X m ''silenced'' g)) m)
    \<and> ChargeAura_unapply E u =
        u\<lparr>game_players := (\<lambda>q.
             if (q = target_player E u \<and> (players E = ''friendly'' \<or> players E = ''both''))
                \<or> (q = opponent (target_player E u)
                      \<and> (players E = ''enemy'' \<or> players E = ''both''))
             then (game_players u q)\<lparr>player_events :=
                    unbind ''minion_played'' (Bound E ''give_charge_if_beast'')
                      (player_events (game_players u q))\<rparr>
             else game_players u q)\<rparr>"
proof -
  note a = migration[OF assms(1-3), of X]
  note b = source_silenced[OF assms(4), of _ X]
  have n: "minion_events (minion (projr (minion_trigger X (target E) ''silenced'' s)) n)
             ''silenced'' = []"
    using b(6)[OF assms(7,5,6)] .
  have again: "minion_trigger X n ''silenced'' (projr (minion_trigger X (target E) ''silenced'' s))
        = Inr (projr (minion_trigger X (target E) ''silenced'' s))"
    using n by (simp add: minion_trigger_def[of X n])
  show ?thesis
    using a b(1,2,3,4)[OF assms(7)] n again b(5)[OF assms(9,8)]
      ChargeAura_unapply_frame[of E u] ChargeAura_unapply_only_unbinds[of E u]
    by simp
qed

theorem ChargeAura_silence_witness:
  "minion_events (minion (ChargeAura_apply (- 1) (ChargeAura 1 0 ''friendly'' (- 1)) three_minions) 0)
     ''silenced''
     = [(Permacharge_target_silenced (ChargeAura 1 0 ''friendly'' (- 1)) 1, True),
        (Watch_unbind (ChargeAura 1 0 ''friendly'' (- 1)) 2, True)]
   \<and> charged_minions (ChargeAura_apply (- 1) (ChargeAura 1 0 ''friendly'' (- 1)) three_minions) 1
     = [2]
   \<and> affected_minions
       (projr (minion_trigger idle 2 ''silenced''
                 (ChargeAura_apply (- 1) (ChargeAura 1 0 ''friendly'' (- 1)) three_minions))) 1
     = [1, 2]
   \<and> \<not> charge (minion
       (projr (minion_trigger idle 0 ''silenced''
                 (ChargeAura_apply (- 1) (ChargeAura 1 0 ''friendly'' (- 1)) three_minions))) 1)"
proof -
  let ?E = "ChargeAura 1 0 ''friendly'' (- 1)"
  let ?g = "ChargeAura_apply (- 1) ?E three_minions"
  have t: "minion_events (minion ?g 0) ''silenced''
             = [(Permacharge_target_silenced ?E 1, True), (Watch_unbind ?E 2, True)]"
    by (simp add: aura_eval)
  have w: "minion_events (minion ?g 2) ''silenced'' = [(Watch_silenced ?E 2, True)]"
    by (simp add: aura_eval)
  have c: "charged_minions ?g 1 = [2]" "affected_minions ?g 1 = [1]"
    by (simp_all add: aura_eval)
  have h1: "minion_events (minion ?g 2) ''silenced'' = [(Watch_silenced ?E 2, True)]"
    by (rule w)
  have h2: "2 \<in> set (charged_minions ?g (ident ?E))" using c by simp
  have h3: "2 \<noteq> target ?E" by simp
  have h4: "list_all (source_listener ?E) (minion_events (minion ?g (target ?E)) ''silenced'')"
    using t by simp
  have h5: "(Watch_unbind ?E 2, True) \<in> set (minion_events (minion ?g (target ?E)) ''silenced'')"
    using t by simp
  have h8: "(Permacharge_target_silenced ?E 1, True)
              \<in> set (minion_events (minion ?g (target ?E)) ''silenced'')"
    using t by simp
  have h9: "1 \<noteq> target ?E" by simp
  show ?thesis
    using ChargeAura_silence[OF h1 h2 h3 h4 h5 h1 h3 h8 h9, of idle] t c
    by simp
qed

end
